theory Spec2Isabelle
  imports Complex_Main "HOL-Library.Finite_Map"
begin

section \<open>Basic data of the scenario simulation market\<close>

text \<open>
  The failures of the modelled code. Every \<open>QL_REQUIRE\<close> and \<open>QL_FAIL\<close> of the source
  is one constructor; the comment gives the message of the source.
\<close>

datatype error =
    DecayModeNotRecognized string
      \<comment> \<open>Decay mode "s" not recognized\<close>
  | NoPeriodVectorFound string
      \<comment> \<open>no period vector for key "k" found.\<close>
  | NoDayCounterFound string
      \<comment> \<open>no dayCounter for key "k" found.\<close>
  | UnsupportedCubeDepth
      \<comment> \<open>cube depth 1 or 2 expected\<close>
  | MissingScenarioDataError
      \<comment> \<open>simulation data points missing from scenario, exit.\<close>
  | ScenarioSizeMismatchError
      \<comment> \<open>mismatch between scenario and sim data size, exit.\<close>
  | YieldCurveTenorsIncludeZero
      \<comment> \<open>yield curve tenors must not include t=0\<close>
  | EmptyVectorFront
      \<comment> \<open>\<open>front()\<close> of an empty vector: undefined behaviour in the source\<close>
  | DiscountCurveNotProvided string
      \<comment> \<open>discount curve for currency ccy not provided\<close>
  | YieldCurveNotProvided string
      \<comment> \<open>yield curve for name n not provided\<close>
  | IndexObjectNotProvided string
      \<comment> \<open>index object for ind not provided\<close>
  | NoTermStructureForIndex string
      \<comment> \<open>no termstructure for index ind\<close>
  | DefaultCurveTenorsIncludeZero
      \<comment> \<open>default curve tenors must not include t=0\<close>
  | InvalidCcyPair string
      \<comment> \<open>Invalid Ccy pair p\<close>
  | EquityTenorGridNotDefined
      \<comment> \<open>Equity curve tenor grid not defined\<close>
  | EquityCurveTenorsIncludeZero
      \<comment> \<open>equity curve tenors must not include t=0\<close>
  | CubeIdsMismatch nat nat
      \<comment> \<open>cube x dimension (n) does not match portfolio size (p)\<close>
  | ScenarioDatesMismatch
      \<comment> \<open>scenario dates do not match cube grid size\<close>
  | ScenarioSamplesMismatch
      \<comment> \<open>scenario sample size does not match cube sample size\<close>

datatype TimeUnit = Days | Weeks | Months | Years

record Period =
  plength :: int
  units :: TimeUnit

type_synonym Date = int

section \<open>Decay modes\<close>

datatype ReactionToTimeDecay = ConstantVariance | ForwardForwardVariance

text \<open>
  \<open>parseDecayMode\<close> looks the string up in a static two-entry map and fails for every
  string that is not a key of it.
\<close>

definition decayModeMap :: "(string \<times> ReactionToTimeDecay) list" where
  "decayModeMap = [(''ForwardVariance'', ForwardForwardVariance),
                   (''ConstantVariance'', ConstantVariance)]"

definition parseDecayMode :: "string \<Rightarrow> error + ReactionToTimeDecay" where
  "parseDecayMode s =
     (case map_of decayModeMap s of
        Some d \<Rightarrow> Inr d
      | None \<Rightarrow> Inl (DecayModeNotRecognized s))"

section \<open>Per-qualifier parameter lookups\<close>

text \<open>
  The two file-local helpers of the parameter class: the entry of the qualifier if the
  map has one, otherwise the entry of the empty string, otherwise a failure.
\<close>

definition returnTenors :: "(string \<rightharpoonup> Period list) \<Rightarrow> string \<Rightarrow> error + Period list" where
  "returnTenors m k =
     (if m k \<noteq> None then Inr (the (m k))
      else if m '''' \<noteq> None then Inr (the (m ''''))
      else Inl (NoPeriodVectorFound k))"

definition returnDayCounter :: "(string \<rightharpoonup> string) \<Rightarrow> string \<Rightarrow> error + string" where
  "returnDayCounter m k =
     (if m k \<noteq> None then Inr (the (m k))
      else if m '''' \<noteq> None then Inr (the (m ''''))
      else Inl (NoDayCounterFound k))"

text \<open>
  The maps of the parameter class that these helpers read, and the inspectors over them.
  A member \<open>x_\<close> of the source is written \<open>x_m\<close> throughout; the inspectors that
  take a qualifier carry the suffix \<open>_key\<close>, which keeps them apart from the
  inspectors without a qualifier that the market constructor calls.
\<close>

record QualifierMaps =
  yieldCurveTenors_m :: "string \<rightharpoonup> Period list"
  capFloorVolExpiries_m :: "string \<rightharpoonup> Period list"
  yoyInflationCapFloorVolExpiries_m :: "string \<rightharpoonup> Period list"
  defaultTenors_m :: "string \<rightharpoonup> Period list"
  equityDividendTenors_m :: "string \<rightharpoonup> Period list"
  zeroInflationTenors_m :: "string \<rightharpoonup> Period list"
  yoyInflationTenors_m :: "string \<rightharpoonup> Period list"
  commodityCurveTenors_m :: "string \<rightharpoonup> Period list"
  commodityVolExpiries_m :: "string \<rightharpoonup> Period list"
  yieldCurveDayCounters_m :: "string \<rightharpoonup> string"
  defaultCurveDayCounters_m :: "string \<rightharpoonup> string"
  defaultCurveCalendars_m :: "string \<rightharpoonup> string"
  swapVolDayCounters_m :: "string \<rightharpoonup> string"
  yieldVolDayCounters_m :: "string \<rightharpoonup> string"
  fxVolDayCounters_m :: "string \<rightharpoonup> string"
  cdsVolDayCounters_m :: "string \<rightharpoonup> string"
  equityVolDayCounters_m :: "string \<rightharpoonup> string"
  capFloorVolDayCounters_m :: "string \<rightharpoonup> string"
  yoyInflationCapFloorVolDayCounters_m :: "string \<rightharpoonup> string"
  zeroInflationDayCounters_m :: "string \<rightharpoonup> string"
  yoyInflationDayCounters_m :: "string \<rightharpoonup> string"
  baseCorrelationDayCounters_m :: "string \<rightharpoonup> string"
  commodityCurveDayCounters_m :: "string \<rightharpoonup> string"
  commodityVolDayCounters_m :: "string \<rightharpoonup> string"

definition yieldCurveTenors_key :: "QualifierMaps \<Rightarrow> string \<Rightarrow> error + Period list" where
  "yieldCurveTenors_key p key = returnTenors (yieldCurveTenors_m p) key"

definition capFloorVolExpiries_key :: "QualifierMaps \<Rightarrow> string \<Rightarrow> error + Period list" where
  "capFloorVolExpiries_key p key = returnTenors (capFloorVolExpiries_m p) key"

definition yoyInflationCapFloorVolExpiries_key :: "QualifierMaps \<Rightarrow> string \<Rightarrow> error + Period list" where
  "yoyInflationCapFloorVolExpiries_key p key = returnTenors (yoyInflationCapFloorVolExpiries_m p) key"

definition defaultTenors_key :: "QualifierMaps \<Rightarrow> string \<Rightarrow> error + Period list" where
  "defaultTenors_key p key = returnTenors (defaultTenors_m p) key"

definition equityDividendTenors_key :: "QualifierMaps \<Rightarrow> string \<Rightarrow> error + Period list" where
  "equityDividendTenors_key p key = returnTenors (equityDividendTenors_m p) key"

definition zeroInflationTenors_key :: "QualifierMaps \<Rightarrow> string \<Rightarrow> error + Period list" where
  "zeroInflationTenors_key p key = returnTenors (zeroInflationTenors_m p) key"

definition yoyInflationTenors_key :: "QualifierMaps \<Rightarrow> string \<Rightarrow> error + Period list" where
  "yoyInflationTenors_key p key = returnTenors (yoyInflationTenors_m p) key"

definition commodityCurveTenors_key :: "QualifierMaps \<Rightarrow> string \<Rightarrow> error + Period list" where
  "commodityCurveTenors_key p key = returnTenors (commodityCurveTenors_m p) key"

definition commodityVolExpiries_key :: "QualifierMaps \<Rightarrow> string \<Rightarrow> error + Period list" where
  "commodityVolExpiries_key p key = returnTenors (commodityVolExpiries_m p) key"

definition yieldCurveDayCounter_key :: "QualifierMaps \<Rightarrow> string \<Rightarrow> error + string" where
  "yieldCurveDayCounter_key p key = returnDayCounter (yieldCurveDayCounters_m p) key"

definition defaultCurveDayCounter_key :: "QualifierMaps \<Rightarrow> string \<Rightarrow> error + string" where
  "defaultCurveDayCounter_key p key = returnDayCounter (defaultCurveDayCounters_m p) key"

definition defaultCurveCalendar_key :: "QualifierMaps \<Rightarrow> string \<Rightarrow> error + string" where
  "defaultCurveCalendar_key p key = returnDayCounter (defaultCurveCalendars_m p) key"

definition swapVolDayCounter_key :: "QualifierMaps \<Rightarrow> string \<Rightarrow> error + string" where
  "swapVolDayCounter_key p key = returnDayCounter (swapVolDayCounters_m p) key"

definition yieldVolDayCounter_key :: "QualifierMaps \<Rightarrow> string \<Rightarrow> error + string" where
  "yieldVolDayCounter_key p key = returnDayCounter (yieldVolDayCounters_m p) key"

definition fxVolDayCounter_key :: "QualifierMaps \<Rightarrow> string \<Rightarrow> error + string" where
  "fxVolDayCounter_key p key = returnDayCounter (fxVolDayCounters_m p) key"

definition cdsVolDayCounter_key :: "QualifierMaps \<Rightarrow> string \<Rightarrow> error + string" where
  "cdsVolDayCounter_key p key = returnDayCounter (cdsVolDayCounters_m p) key"

definition equityVolDayCounter_key :: "QualifierMaps \<Rightarrow> string \<Rightarrow> error + string" where
  "equityVolDayCounter_key p key = returnDayCounter (equityVolDayCounters_m p) key"

definition capFloorVolDayCounter_key :: "QualifierMaps \<Rightarrow> string \<Rightarrow> error + string" where
  "capFloorVolDayCounter_key p key = returnDayCounter (capFloorVolDayCounters_m p) key"

definition yoyInflationCapFloorVolDayCounter_key :: "QualifierMaps \<Rightarrow> string \<Rightarrow> error + string" where
  "yoyInflationCapFloorVolDayCounter_key p key = returnDayCounter (yoyInflationCapFloorVolDayCounters_m p) key"

definition zeroInflationDayCounter_key :: "QualifierMaps \<Rightarrow> string \<Rightarrow> error + string" where
  "zeroInflationDayCounter_key p key = returnDayCounter (zeroInflationDayCounters_m p) key"

definition yoyInflationDayCounter_key :: "QualifierMaps \<Rightarrow> string \<Rightarrow> error + string" where
  "yoyInflationDayCounter_key p key = returnDayCounter (yoyInflationDayCounters_m p) key"

definition baseCorrelationDayCounter_key :: "QualifierMaps \<Rightarrow> string \<Rightarrow> error + string" where
  "baseCorrelationDayCounter_key p key = returnDayCounter (baseCorrelationDayCounters_m p) key"

definition commodityCurveDayCounter_key :: "QualifierMaps \<Rightarrow> string \<Rightarrow> error + string" where
  "commodityCurveDayCounter_key p key = returnDayCounter (commodityCurveDayCounters_m p) key"

definition commodityVolDayCounter_key :: "QualifierMaps \<Rightarrow> string \<Rightarrow> error + string" where
  "commodityVolDayCounter_key p key = returnDayCounter (commodityVolDayCounters_m p) key"

text \<open>
  The maps as \<open>setDefaults\<close> leaves them on a fresh parameter object: an empty tenor
  grid under the empty string for seven of the grids (none for the yield curve tenors and
  the commodity volatility expiries), the day counter A365 under the empty string for
  every day counter map, and the calendar TARGET under the empty string.
\<close>

definition setDefaults :: QualifierMaps where
  "setDefaults =
     \<lparr>yieldCurveTenors_m = Map.empty,
      capFloorVolExpiries_m = ['''' \<mapsto> []],
      yoyInflationCapFloorVolExpiries_m = ['''' \<mapsto> []],
      defaultTenors_m = ['''' \<mapsto> []],
      equityDividendTenors_m = ['''' \<mapsto> []],
      zeroInflationTenors_m = ['''' \<mapsto> []],
      yoyInflationTenors_m = ['''' \<mapsto> []],
      commodityCurveTenors_m = ['''' \<mapsto> []],
      commodityVolExpiries_m = Map.empty,
      yieldCurveDayCounters_m = ['''' \<mapsto> ''A365''],
      defaultCurveDayCounters_m = ['''' \<mapsto> ''A365''],
      defaultCurveCalendars_m = ['''' \<mapsto> ''TARGET''],
      swapVolDayCounters_m = ['''' \<mapsto> ''A365''],
      yieldVolDayCounters_m = ['''' \<mapsto> ''A365''],
      fxVolDayCounters_m = ['''' \<mapsto> ''A365''],
      cdsVolDayCounters_m = ['''' \<mapsto> ''A365''],
      equityVolDayCounters_m = ['''' \<mapsto> ''A365''],
      capFloorVolDayCounters_m = ['''' \<mapsto> ''A365''],
      yoyInflationCapFloorVolDayCounters_m = ['''' \<mapsto> ''A365''],
      zeroInflationDayCounters_m = ['''' \<mapsto> ''A365''],
      yoyInflationDayCounters_m = ['''' \<mapsto> ''A365''],
      baseCorrelationDayCounters_m = ['''' \<mapsto> ''A365''],
      commodityCurveDayCounters_m = ['''' \<mapsto> ''A365''],
      commodityVolDayCounters_m = ['''' \<mapsto> ''A365'']\<rparr>"

section \<open>Risk factor keys, scenarios and the quote bank\<close>

datatype KeyType =
    DiscountCurve | YieldCurve | IndexCurve | SwaptionVolatility | OptionletVolatility
  | FXSpot | FXVolatility | EQSpot | EQVolatility

text \<open>A key built from a type and a name only has index 0.\<close>

datatype RiskFactorKey = RiskFactorKey (keytype: KeyType) (name: string) (index: nat)

text \<open>
  A scenario as \<open>update\<close> reads it: its key sequence, the value of a key and the
  numeraire. \<open>update\<close> asks for the value of the scenario's own keys only.
\<close>

record Scenario =
  keys :: "RiskFactorKey list"
  get :: "RiskFactorKey \<Rightarrow> real"
  getNumeraire :: real

text \<open>
  \<open>simData_\<close> maps a key to its own quote cell, so the bank is a finite map from keys to
  the values of the cells.
\<close>

type_synonym SimData = "(RiskFactorKey, real) fmap"

text \<open>\<open>std::map::emplace\<close> keeps the entry of a key that is present.\<close>

definition emplace :: "RiskFactorKey \<Rightarrow> real \<Rightarrow> SimData \<Rightarrow> SimData" where
  "emplace k v sd = (if fmlookup sd k \<noteq> None then sd else fmupd k v sd)"

section \<open>Construction of the simulation market\<close>

text \<open>
  The parameters the constructor reads, under the names of their inspectors.
\<close>

record ScenarioSimMarketParameters =
  baseCcy :: string
  fxCcyPairs :: "string list"
  ccys :: "string list"
  yieldCurveNames :: "string list"
  yieldCurveTenors :: "Period list"
  securities :: "string list"
  indices :: "string list"
  swapIndices :: "(string \<times> string) list"
  swapVolCcys :: "string list"
  simulateSwapVols :: bool
  swapVolExpiries :: "Period list"
  swapVolTerms :: "Period list"
  swapVolDecayMode :: string
  capFloorVolCcys :: "string list"
  simulateCapFloorVols :: bool
  capFloorVolExpiries :: "Period list"
  capFloorVolStrikes :: "real list"
  capFloorVolDecayMode :: string
  defaultNames :: "string list"
  defaultTenors :: "Period list"
  fxVolCcyPairs :: "string list"
  simulateFXVols :: bool
  fxVolExpiries :: "Period list"
  fxVolDecayMode :: string
  equityNames :: "string list"
  equityTenors :: "Period list"
  eqVolNames :: "string list"
  simulateEQVols :: bool
  eqVolExpiries :: "Period list"
  eqVolDecayMode :: string
  additionalScenarioDataIndices :: "string list"
  additionalScenarioDataCcys :: "string list"

text \<open>
  The initial market, a collaborator. The constructor checks three of its answers for
  an empty handle, which are options here; the other answers are the values it reads:
  a curve gives the discount factor at the as-of date plus a tenor, a volatility
  structure the volatility at its coordinates.
\<close>

record Market =
  fxSpot :: "string \<Rightarrow> real"
  discountCurve :: "string \<Rightarrow> (Period \<Rightarrow> real) option"
  yieldCurve :: "string \<Rightarrow> (Period \<Rightarrow> real) option"
  iborIndex :: "string \<Rightarrow> (Period \<Rightarrow> real) option option"
  swaptionVol :: "string \<Rightarrow> Period \<Rightarrow> Period \<Rightarrow> real"
  capFloorVol :: "string \<Rightarrow> Period \<Rightarrow> real \<Rightarrow> real"
  fxVol :: "string \<Rightarrow> Period \<Rightarrow> real"
  equitySpot :: "string \<Rightarrow> real"
  equityVol :: "string \<Rightarrow> Period \<Rightarrow> real"

text \<open>
  \<open>QL_REQUIRE(tenors.front() > 0 * Days, msg)\<close>. A period compares greater than the
  zero period exactly when its length is positive. \<open>front()\<close> of an empty vector is
  undefined in the source and a failure here.
\<close>

definition requireFrontPositive :: "Period list \<Rightarrow> error \<Rightarrow> error + unit" where
  "requireFrontPositive tenors msg =
     (case tenors of
        [] \<Rightarrow> Inl EmptyVectorFront
      | t # _ \<Rightarrow> if 0 < plength t then Inr () else Inl msg)"

text \<open>A loop whose body may fail stops at the first failure.\<close>

fun forEach :: "('a \<Rightarrow> 's \<Rightarrow> error + 's) \<Rightarrow> 'a list \<Rightarrow> 's \<Rightarrow> error + 's" where
  "forEach body [] s = Inr s"
| "forEach body (x # xs) s =
     (case body x s of Inl e \<Rightarrow> Inl e | Inr s' \<Rightarrow> forEach body xs s')"

text \<open>
  One cell per pillar \<open>i\<close> of a curve, under the key \<open>(kt, nm, i)\<close>, seeded with the
  curve's value at the \<open>i\<close>-th tenor.
\<close>

definition emplacePillars ::
  "KeyType \<Rightarrow> string \<Rightarrow> (Period \<Rightarrow> real) \<Rightarrow> Period list \<Rightarrow> SimData \<Rightarrow> SimData" where
  "emplacePillars kt nm curve tenors sd =
     fold (\<lambda>i. emplace (RiskFactorKey kt nm i) (curve (tenors ! i))) [0..<length tenors] sd"

text \<open>
  One cell per point \<open>(i, j)\<close> of a grid, under the index \<open>i * n + j\<close> where \<open>n\<close> is the
  length of the second axis.
\<close>

definition emplaceGrid ::
  "KeyType \<Rightarrow> string \<Rightarrow> ('a \<Rightarrow> 'b \<Rightarrow> real) \<Rightarrow> 'a list \<Rightarrow> 'b list \<Rightarrow> SimData \<Rightarrow> SimData" where
  "emplaceGrid kt nm vol xs ys sd =
     fold (\<lambda>i. fold (\<lambda>j. emplace (RiskFactorKey kt nm (i * length ys + j)) (vol (xs ! i) (ys ! j)))
                    [0..<length ys])
          [0..<length xs] sd"

definition buildFxSpots :: "Market \<Rightarrow> ScenarioSimMarketParameters \<Rightarrow> SimData \<Rightarrow> error + SimData" where
  "buildFxSpots initMarket parameters =
     forEach (\<lambda>ccyPair sd. Inr (emplace (RiskFactorKey FXSpot ccyPair 0) (fxSpot initMarket ccyPair) sd))
       (fxCcyPairs parameters)"

definition checkYieldCurveTenors :: "ScenarioSimMarketParameters \<Rightarrow> SimData \<Rightarrow> error + SimData" where
  "checkYieldCurveTenors parameters sd =
     (case requireFrontPositive (yieldCurveTenors parameters) YieldCurveTenorsIncludeZero of
        Inl e \<Rightarrow> Inl e | Inr _ \<Rightarrow> Inr sd)"

definition buildDiscountCurves :: "Market \<Rightarrow> ScenarioSimMarketParameters \<Rightarrow> SimData \<Rightarrow> error + SimData" where
  "buildDiscountCurves initMarket parameters =
     forEach (\<lambda>ccy sd.
        case discountCurve initMarket ccy of
          None \<Rightarrow> Inl (DiscountCurveNotProvided ccy)
        | Some wrapper \<Rightarrow>
            (case requireFrontPositive (yieldCurveTenors parameters) YieldCurveTenorsIncludeZero of
               Inl e \<Rightarrow> Inl e
             | Inr _ \<Rightarrow> Inr (emplacePillars DiscountCurve ccy wrapper (yieldCurveTenors parameters) sd)))
       (ccys parameters)"

definition buildYieldCurves :: "Market \<Rightarrow> ScenarioSimMarketParameters \<Rightarrow> SimData \<Rightarrow> error + SimData" where
  "buildYieldCurves initMarket parameters =
     forEach (\<lambda>nm sd.
        case yieldCurve initMarket nm of
          None \<Rightarrow> Inl (YieldCurveNotProvided nm)
        | Some wrapper \<Rightarrow>
            (case requireFrontPositive (yieldCurveTenors parameters) YieldCurveTenorsIncludeZero of
               Inl e \<Rightarrow> Inl e
             | Inr _ \<Rightarrow> Inr (emplacePillars YieldCurve nm wrapper (yieldCurveTenors parameters) sd)))
       (yieldCurveNames parameters)"

definition buildIndexCurves :: "Market \<Rightarrow> ScenarioSimMarketParameters \<Rightarrow> SimData \<Rightarrow> error + SimData" where
  "buildIndexCurves initMarket parameters =
     forEach (\<lambda>ind sd.
        case iborIndex initMarket ind of
          None \<Rightarrow> Inl (IndexObjectNotProvided ind)
        | Some None \<Rightarrow> Inl (NoTermStructureForIndex ind)
        | Some (Some wrapperIndex) \<Rightarrow>
            (case requireFrontPositive (yieldCurveTenors parameters) YieldCurveTenorsIncludeZero of
               Inl e \<Rightarrow> Inl e
             | Inr _ \<Rightarrow> Inr (emplacePillars IndexCurve ind wrapperIndex (yieldCurveTenors parameters) sd)))
       (indices parameters)"

definition buildSwaptionVols :: "Market \<Rightarrow> ScenarioSimMarketParameters \<Rightarrow> SimData \<Rightarrow> error + SimData" where
  "buildSwaptionVols initMarket parameters =
     forEach (\<lambda>ccy sd.
        if simulateSwapVols parameters
        then Inr (emplaceGrid SwaptionVolatility ccy (swaptionVol initMarket ccy)
                    (swapVolExpiries parameters) (swapVolTerms parameters) sd)
        else (case parseDecayMode (swapVolDecayMode parameters) of
                Inl e \<Rightarrow> Inl e | Inr decayMode \<Rightarrow> Inr sd))
       (swapVolCcys parameters)"

definition buildCapFloorVols :: "Market \<Rightarrow> ScenarioSimMarketParameters \<Rightarrow> SimData \<Rightarrow> error + SimData" where
  "buildCapFloorVols initMarket parameters =
     forEach (\<lambda>ccy sd.
        if simulateCapFloorVols parameters
        then Inr (emplaceGrid OptionletVolatility ccy (capFloorVol initMarket ccy)
                    (capFloorVolExpiries parameters) (capFloorVolStrikes parameters) sd)
        else (case parseDecayMode (capFloorVolDecayMode parameters) of
                Inl e \<Rightarrow> Inl e | Inr decayMode \<Rightarrow> Inr sd))
       (capFloorVolCcys parameters)"

text \<open>The default curves add no cell to the bank; their tenor grid is checked per name.\<close>

definition buildDefaultCurves :: "ScenarioSimMarketParameters \<Rightarrow> SimData \<Rightarrow> error + SimData" where
  "buildDefaultCurves parameters =
     forEach (\<lambda>nm sd.
        case requireFrontPositive (defaultTenors parameters) DefaultCurveTenorsIncludeZero of
          Inl e \<Rightarrow> Inl e | Inr _ \<Rightarrow> Inr sd)
       (defaultNames parameters)"

definition buildFxVols :: "Market \<Rightarrow> ScenarioSimMarketParameters \<Rightarrow> SimData \<Rightarrow> error + SimData" where
  "buildFxVols initMarket parameters =
     forEach (\<lambda>ccyPair sd.
        case (if simulateFXVols parameters
              then Inr (emplacePillars FXVolatility ccyPair (fxVol initMarket ccyPair)
                          (fxVolExpiries parameters) sd)
              else (case parseDecayMode (fxVolDecayMode parameters) of
                      Inl e \<Rightarrow> Inl e | Inr decayMode \<Rightarrow> Inr sd)) of
          Inl e \<Rightarrow> Inl e
        | Inr sd' \<Rightarrow> if length ccyPair = 6 then Inr sd' else Inl (InvalidCcyPair ccyPair))
       (fxVolCcyPairs parameters)"

definition buildEquitySpots :: "Market \<Rightarrow> ScenarioSimMarketParameters \<Rightarrow> SimData \<Rightarrow> error + SimData" where
  "buildEquitySpots initMarket parameters =
     forEach (\<lambda>eqName sd. Inr (emplace (RiskFactorKey EQSpot eqName 0) (equitySpot initMarket eqName) sd))
       (equityNames parameters)"

definition checkEquityTenors :: "ScenarioSimMarketParameters \<Rightarrow> SimData \<Rightarrow> error + SimData" where
  "checkEquityTenors parameters sd =
     (if length (equityNames parameters) > 0
      then (if \<not> length (equityTenors parameters) > 0 then Inl EquityTenorGridNotDefined
            else (case requireFrontPositive (equityTenors parameters) EquityCurveTenorsIncludeZero of
                    Inl e \<Rightarrow> Inl e | Inr _ \<Rightarrow> Inr sd))
      else Inr sd)"

definition buildEquityVols :: "Market \<Rightarrow> ScenarioSimMarketParameters \<Rightarrow> SimData \<Rightarrow> error + SimData" where
  "buildEquityVols initMarket parameters =
     forEach (\<lambda>eqName sd.
        if simulateEQVols parameters
        then Inr (emplacePillars EQVolatility eqName (equityVol initMarket eqName)
                    (eqVolExpiries parameters) sd)
        else (case parseDecayMode (eqVolDecayMode parameters) of
                Inl e \<Rightarrow> Inl e | Inr decayMode \<Rightarrow> Inr sd))
       (eqVolNames parameters)"

text \<open>
  The constructor's blocks that write the bank or can fail, in the order of the source,
  each run on the bank the one before left. The blocks in between (security spreads, swap
  indices, recovery rates, dividend curves) write no cell and have no check.
\<close>

definition constructorBlocks ::
  "Market \<Rightarrow> ScenarioSimMarketParameters \<Rightarrow> (SimData \<Rightarrow> error + SimData) list" where
  "constructorBlocks initMarket parameters =
     [buildFxSpots initMarket parameters,
      checkYieldCurveTenors parameters,
      buildDiscountCurves initMarket parameters,
      buildYieldCurves initMarket parameters,
      buildIndexCurves initMarket parameters,
      buildSwaptionVols initMarket parameters,
      buildCapFloorVols initMarket parameters,
      buildDefaultCurves parameters,
      buildFxVols initMarket parameters,
      buildEquitySpots initMarket parameters,
      checkEquityTenors parameters,
      buildEquityVols initMarket parameters]"

definition buildSimData :: "Market \<Rightarrow> ScenarioSimMarketParameters \<Rightarrow> error + SimData" where
  "buildSimData initMarket parameters =
     forEach (\<lambda>block sd. block sd) (constructorBlocks initMarket parameters) fmempty"

text \<open>
  The simulation market: the bank, the numeraire of the last scenario, the state of
  the scenario generator, the parameters, whether a sink for aggregation scenario data
  is attached, and the global evaluation date that \<open>update\<close> moves.
\<close>

record 'g ScenarioSimMarket =
  simData_m :: SimData
  numeraire_m :: real
  scenarioGenerator_m :: 'g
  parameters_m :: ScenarioSimMarketParameters
  asd_m :: bool
  evaluationDate :: Date

text \<open>
  The constructor attaches no sink and leaves the evaluation date as it finds it. The
  numeraire starts at 1 and \<open>update\<close> assigns it before anything reads it.
\<close>

definition ScenarioSimMarket_new ::
  "'g \<Rightarrow> Market \<Rightarrow> ScenarioSimMarketParameters \<Rightarrow> Date \<Rightarrow> error + 'g ScenarioSimMarket" where
  "ScenarioSimMarket_new scenarioGenerator initMarket parameters today =
     (case buildSimData initMarket parameters of
        Inl e \<Rightarrow> Inl e
      | Inr sd \<Rightarrow> Inr \<lparr>simData_m = sd, numeraire_m = 1, scenarioGenerator_m = scenarioGenerator,
                       parameters_m = parameters, asd_m = False, evaluationDate = today\<rparr>)"

text \<open>
  When the constructor parses a decay mode string: for a volatility category with at
  least one name whose volatilities are not simulated.
\<close>

definition parsesDecayMode :: "ScenarioSimMarketParameters \<Rightarrow> string \<Rightarrow> bool" where
  "parsesDecayMode parameters s =
     ((swapVolCcys parameters \<noteq> [] \<and> \<not> simulateSwapVols parameters
         \<and> swapVolDecayMode parameters = s)
      \<or> (capFloorVolCcys parameters \<noteq> [] \<and> \<not> simulateCapFloorVols parameters
         \<and> capFloorVolDecayMode parameters = s)
      \<or> (fxVolCcyPairs parameters \<noteq> [] \<and> \<not> simulateFXVols parameters
         \<and> fxVolDecayMode parameters = s)
      \<or> (eqVolNames parameters \<noteq> [] \<and> \<not> simulateEQVols parameters
         \<and> eqVolDecayMode parameters = s))"


section \<open>Updating the simulation market\<close>

text \<open>
  The observation modes. The source names three of them; \<open>OtherMode\<close> is any other.
\<close>

datatype Mode = OtherMode | Disable | Defer | Unregister

datatype AggregationScenarioDataType = ASD_IndexFixing | ASD_FXSpot | ASD_Numeraire

text \<open>
  What \<open>update\<close> does to its collaborators, in the order it does it: the calls to the
  observable settings, to the generator, to the evaluation date, to the quote cells, to
  the fixing manager and to the sink. A call of \<open>set\<close> on the sink without a qualifier
  carries the empty string.
\<close>

datatype Event =
    DisableUpdates bool
  | GeneratorNext Date
  | SetEvaluationDate Date
  | NotifyObservers
  | SetValue RiskFactorKey real
  | Refresh
  | EnableUpdates
  | FixingManagerUpdate Date
  | AsdSet real AggregationScenarioDataType string
  | AsdNext

text \<open>
  The collaborators of \<open>update\<close>: the observation mode, the scenario generator as a
  transition on its state, and what the market reads back for the sink from its indices
  and FX quotes, which depend on the bank.
\<close>

record 'g Collaborators =
  mode :: Mode
  "next" :: "'g \<Rightarrow> Date \<Rightarrow> Scenario \<times> 'g"
  reset :: "'g \<Rightarrow> 'g"
  indexFixing :: "SimData \<Rightarrow> string \<Rightarrow> Date \<Rightarrow> real"
  fxSpotValue :: "SimData \<Rightarrow> string \<Rightarrow> real"

definition suspendEvents :: "Mode \<Rightarrow> Event list" where
  "suspendEvents om =
     (if om = Disable then [DisableUpdates False]
      else if om = Defer then [DisableUpdates True]
      else [])"

definition dateEvents :: "Mode \<Rightarrow> Date \<Rightarrow> Date \<Rightarrow> Event list" where
  "dateEvents om d today =
     (if d \<noteq> today then [SetEvaluationDate d]
      else if om = Unregister then [NotifyObservers]
      else [])"

text \<open>
  The loop over the scenario's keys: a key without a cell sets \<open>missingPoint\<close>, a key
  with a cell writes the scenario's value into it and is counted.
\<close>

fun applyKeys ::
  "Scenario \<Rightarrow> RiskFactorKey list \<Rightarrow> SimData \<times> nat \<times> bool \<times> Event list
     \<Rightarrow> SimData \<times> nat \<times> bool \<times> Event list" where
  "applyKeys scenario [] st = st"
| "applyKeys scenario (key # ks) (sd, count, missingPoint, evs) =
     (if fmlookup sd key = None
      then applyKeys scenario ks (sd, count, True, evs)
      else applyKeys scenario ks
             (fmupd key (get scenario key) sd, count + 1, missingPoint,
              evs @ [SetValue key (get scenario key)]))"

definition resumeEvents :: "Mode \<Rightarrow> Event list" where
  "resumeEvents om =
     (if om = Disable then [Refresh, EnableUpdates]
      else if om = Defer then [EnableUpdates]
      else [])"

definition asdEvents ::
  "'g Collaborators \<Rightarrow> ScenarioSimMarketParameters \<Rightarrow> SimData \<Rightarrow> real \<Rightarrow> Date \<Rightarrow> Event list" where
  "asdEvents C parameters sd numeraire d =
     map (\<lambda>i. AsdSet (indexFixing C sd i d) ASD_IndexFixing i)
         (additionalScenarioDataIndices parameters)
     @ map (\<lambda>c. AsdSet (fxSpotValue C sd (c @ baseCcy parameters)) ASD_FXSpot c)
           (filter (\<lambda>c. c \<noteq> baseCcy parameters) (additionalScenarioDataCcys parameters))
     @ [AsdSet numeraire ASD_Numeraire '''']
     @ [AsdNext]"

text \<open>
  \<open>update\<close> returns the failure if there is one, the market as the call leaves it (a
  failure keeps what was written before it), and the events of the call.
\<close>

definition update ::
  "'g Collaborators \<Rightarrow> Date \<Rightarrow> 'g ScenarioSimMarket
     \<Rightarrow> error option \<times> 'g ScenarioSimMarket \<times> Event list" where
  "update C d m =
     (let om = mode C;
          evs0 = suspendEvents om;
          (scenario, g) = next C (scenarioGenerator_m m) d;
          evs1 = evs0 @ [GeneratorNext d];
          evs2 = evs1 @ dateEvents om d (evaluationDate m);
          (sd, count, missingPoint, evs3) =
             applyKeys scenario (keys scenario) (simData_m m, 0, False, evs2);
          m1 = m\<lparr>simData_m := sd, numeraire_m := getNumeraire scenario,
                 scenarioGenerator_m := g,
                 evaluationDate := (if d \<noteq> evaluationDate m then d else evaluationDate m)\<rparr>
      in if missingPoint then (Some MissingScenarioDataError, m1, evs3)
         else if count \<noteq> fcard (fmdom sd) then (Some ScenarioSizeMismatchError, m1, evs3)
         else let evs4 = evs3 @ resumeEvents om @ [FixingManagerUpdate d]
              in if asd_m m
                 then (None, m1,
                       evs4 @ asdEvents C (parameters_m m) sd (getNumeraire scenario) d)
                 else (None, m1, evs4))"

text \<open>The keys of a sequence that have a cell in the bank, in their order.\<close>

definition matchedKeys :: "SimData \<Rightarrow> RiskFactorKey list \<Rightarrow> RiskFactorKey list" where
  "matchedKeys sd ks = filter (\<lambda>k. fmlookup sd k \<noteq> None) ks"

text \<open>The scenario a call of \<open>update\<close> pulls from the generator, and the results of the call.\<close>

definition pulledScenario :: "'g Collaborators \<Rightarrow> Date \<Rightarrow> 'g ScenarioSimMarket \<Rightarrow> Scenario" where
  "pulledScenario C d m = fst (next C (scenarioGenerator_m m) d)"

definition updateError :: "'g Collaborators \<Rightarrow> Date \<Rightarrow> 'g ScenarioSimMarket \<Rightarrow> error option" where
  "updateError C d m = fst (update C d m)"

definition updateMarket ::
  "'g Collaborators \<Rightarrow> Date \<Rightarrow> 'g ScenarioSimMarket \<Rightarrow> 'g ScenarioSimMarket" where
  "updateMarket C d m = fst (snd (update C d m))"

definition updateEvents :: "'g Collaborators \<Rightarrow> Date \<Rightarrow> 'g ScenarioSimMarket \<Rightarrow> Event list" where
  "updateEvents C d m = snd (snd (update C d m))"

text \<open>Resetting the generator of a market between two updates.\<close>

definition resetGenerator :: "'g Collaborators \<Rightarrow> 'g ScenarioSimMarket \<Rightarrow> 'g ScenarioSimMarket" where
  "resetGenerator C m = m\<lparr>scenarioGenerator_m := reset C (scenarioGenerator_m m)\<rparr>"

text \<open>How many times the events write the cell of a key.\<close>

fun writesCell :: "RiskFactorKey \<Rightarrow> Event \<Rightarrow> bool" where
  "writesCell k (SetValue k' v) = (k' = k)"
| "writesCell k e = False"

definition writesTo :: "RiskFactorKey \<Rightarrow> Event list \<Rightarrow> nat" where
  "writesTo k evs = length (filter (writesCell k) evs)"

text \<open>
  Whether every write to a cell in the events happens while the notifications of the
  observables are suspended; the flag is whether they are enabled before the events.
\<close>

fun writesSuspended :: "bool \<Rightarrow> Event list \<Rightarrow> bool" where
  "writesSuspended enabled [] = True"
| "writesSuspended enabled (DisableUpdates deferred # evs) = writesSuspended False evs"
| "writesSuspended enabled (EnableUpdates # evs) = writesSuspended True evs"
| "writesSuspended enabled (SetValue k v # evs) = (\<not> enabled \<and> writesSuspended enabled evs)"
| "writesSuspended enabled (e # evs) = writesSuspended enabled evs"

fun isAsdEvent :: "Event \<Rightarrow> bool" where
  "isAsdEvent (AsdSet v t q) = True"
| "isAsdEvent AsdNext = True"
| "isAsdEvent e = False"

section \<open>Cube construction\<close>

text \<open>
  The two cube classes the application builds. The first stores one value per
  trade, date and sample (the NPV); the second stores \<open>depth\<close> values.
\<close>

datatype NPVCube =
    SinglePrecisionInMemoryCube Date "string list" "Date list" nat
  | SinglePrecisionInMemoryCubeN Date "string list" "Date list" nat nat

fun depth :: "NPVCube \<Rightarrow> nat" where
  "depth (SinglePrecisionInMemoryCube a ids ds s) = 1"
| "depth (SinglePrecisionInMemoryCubeN a ids ds s n) = n"

definition initCube :: "nat \<Rightarrow> Date \<Rightarrow> string list \<Rightarrow> Date list \<Rightarrow> nat \<Rightarrow> error + NPVCube" where
  "initCube cubeDepth asof ids dates samples =
     (if cubeDepth = 1 then Inr (SinglePrecisionInMemoryCube asof ids dates samples)
      else if cubeDepth = 2 then Inr (SinglePrecisionInMemoryCubeN asof ids dates samples cubeDepth)
      else Inl UnsupportedCubeDepth)"

text \<open>The calculators that fill the cube: the NPV always, the cash flows for a deeper cube.\<close>

datatype ValuationCalculator = NPVCalculator string | CashflowCalculator string Date nat

definition calculators :: "nat \<Rightarrow> string \<Rightarrow> Date \<Rightarrow> ValuationCalculator list" where
  "calculators cubeDepth baseCurrency asof =
     [NPVCalculator baseCurrency] @
     (if cubeDepth > 1 then [CashflowCalculator baseCurrency asof 1] else [])"

fun numIds :: "NPVCube \<Rightarrow> nat" where
  "numIds (SinglePrecisionInMemoryCube a ids ds s) = length ids"
| "numIds (SinglePrecisionInMemoryCubeN a ids ds s n) = length ids"

fun dates :: "NPVCube \<Rightarrow> Date list" where
  "dates (SinglePrecisionInMemoryCube a ids ds s) = ds"
| "dates (SinglePrecisionInMemoryCubeN a ids ds s n) = ds"

fun samples :: "NPVCube \<Rightarrow> nat" where
  "samples (SinglePrecisionInMemoryCube a ids ds s) = s"
| "samples (SinglePrecisionInMemoryCubeN a ids ds s n) = s"

section \<open>The aggregation and XVA stage of a run\<close>

record AggregationScenarioData =
  dimDates :: nat
  dimSamples :: nat

text \<open>
  What the stage reads of the application: whether XVA is active, the cube and the
  scenario data if the simulation stage of this run left them, the size of the
  portfolio, and whether the DIM report is written.
\<close>

record OREApp =
  xva_m :: bool
  cube_m :: "NPVCube option"
  scenarioData_m :: "AggregationScenarioData option"
  portfolioSize :: nat
  writeDIMReport_m :: bool

datatype Step = LoadCube | LoadScenarioData | RunPostProcessor | WriteXVAReports | WriteDIMReport

text \<open>
  The cube and the scenario data the stage works on: the ones of this run, or the ones
  loaded from the files (\<open>cubeFile\<close> and \<open>scenarioFile\<close> are what loading yields).
\<close>

definition cubeInUse :: "OREApp \<Rightarrow> NPVCube \<Rightarrow> NPVCube" where
  "cubeInUse app cubeFile = (case cube_m app of None \<Rightarrow> cubeFile | Some c \<Rightarrow> c)"

definition scenarioDataInUse :: "OREApp \<Rightarrow> AggregationScenarioData \<Rightarrow> AggregationScenarioData" where
  "scenarioDataInUse app scenarioFile =
     (case scenarioData_m app of None \<Rightarrow> scenarioFile | Some s \<Rightarrow> s)"

text \<open>
  The stage returns the failure of the first check that does not hold, if any, and the
  steps it took before.
\<close>

definition xvaStage ::
  "OREApp \<Rightarrow> NPVCube \<Rightarrow> AggregationScenarioData \<Rightarrow> error option \<times> Step list" where
  "xvaStage app cubeFile scenarioFile =
     (if xva_m app then
        (let steps1 = (if cube_m app = None then [LoadCube] else []);
             cube = cubeInUse app cubeFile
         in if numIds cube \<noteq> portfolioSize app
            then (Some (CubeIdsMismatch (numIds cube) (portfolioSize app)), steps1)
            else
              (let steps2 = steps1 @ (if scenarioData_m app = None then [LoadScenarioData] else []);
                   scenarioData = scenarioDataInUse app scenarioFile
               in if dimDates scenarioData \<noteq> length (dates cube)
                  then (Some ScenarioDatesMismatch, steps2)
                  else if dimSamples scenarioData \<noteq> samples cube
                  then (Some ScenarioSamplesMismatch, steps2)
                  else (None, steps2 @ [RunPostProcessor, WriteXVAReports]
                                @ (if writeDIMReport_m app then [WriteDIMReport] else []))))
      else (None, []))"

text \<open>\<open>run\<close> catches the failure, prints it and returns 1; it returns 0 otherwise.\<close>

definition exitCode :: "error option \<Rightarrow> int" where
  "exitCode r = (case r of Some e \<Rightarrow> 1 | None \<Rightarrow> 0)"

section \<open>Example inputs\<close>

definition oneYear :: Period where
  "oneYear = \<lparr>plength = 1, units = Years\<rparr>"

definition zeroDays :: Period where
  "zeroDays = \<lparr>plength = 0, units = Days\<rparr>"

definition keyA :: RiskFactorKey where
  "keyA = RiskFactorKey DiscountCurve ''EUR'' 0"

definition keyB :: RiskFactorKey where
  "keyB = RiskFactorKey DiscountCurve ''EUR'' 1"

definition keyC :: RiskFactorKey where
  "keyC = RiskFactorKey FXSpot ''EURUSD'' 0"

text \<open>A parameter set that declares nothing, with a yield curve tenor grid of one year.\<close>

definition emptyParameters :: ScenarioSimMarketParameters where
  "emptyParameters =
     \<lparr>baseCcy = ''EUR'', fxCcyPairs = [], ccys = [], yieldCurveNames = [],
      yieldCurveTenors = [oneYear], securities = [], indices = [], swapIndices = [],
      swapVolCcys = [], simulateSwapVols = False, swapVolExpiries = [], swapVolTerms = [],
      swapVolDecayMode = ''ForwardVariance'', capFloorVolCcys = [],
      simulateCapFloorVols = False, capFloorVolExpiries = [], capFloorVolStrikes = [],
      capFloorVolDecayMode = ''ForwardVariance'', defaultNames = [], defaultTenors = [],
      fxVolCcyPairs = [], simulateFXVols = False, fxVolExpiries = [],
      fxVolDecayMode = ''ForwardVariance'', equityNames = [], equityTenors = [],
      eqVolNames = [], simulateEQVols = False, eqVolExpiries = [],
      eqVolDecayMode = ''ForwardVariance'', additionalScenarioDataIndices = [],
      additionalScenarioDataCcys = []\<rparr>"

text \<open>An initial market that provides every curve, flat at 1, and every quote at 1.\<close>

definition flatMarket :: Market where
  "flatMarket =
     \<lparr>fxSpot = (\<lambda>p. 1), discountCurve = (\<lambda>c. Some (\<lambda>t. 1)), yieldCurve = (\<lambda>n. Some (\<lambda>t. 1)),
      iborIndex = (\<lambda>i. Some (Some (\<lambda>t. 1))), swaptionVol = (\<lambda>c e t. 1),
      capFloorVol = (\<lambda>c e k. 1), fxVol = (\<lambda>p e. 1), equitySpot = (\<lambda>n. 1),
      equityVol = (\<lambda>n e. 1)\<rparr>"

text \<open>
  A generator whose state counts the scenarios it has produced: the scenario number
  \<open>n\<close> for the date \<open>d\<close> has the given keys, the value \<open>n + d\<close> for each of them and
  the numeraire 1. \<open>reset\<close> goes back to scenario 0.
\<close>

definition countingScenario :: "RiskFactorKey list \<Rightarrow> nat \<Rightarrow> Date \<Rightarrow> Scenario" where
  "countingScenario ks n d =
     \<lparr>keys = ks, get = (\<lambda>k. real n + real_of_int d), getNumeraire = 1\<rparr>"

definition countingCollaborators :: "Mode \<Rightarrow> RiskFactorKey list \<Rightarrow> nat Collaborators" where
  "countingCollaborators om ks =
     \<lparr>mode = om, next = (\<lambda>n d. (countingScenario ks n d, n + 1)), reset = (\<lambda>n. 0),
      indexFixing = (\<lambda>sd i d. 2), fxSpotValue = (\<lambda>sd p. 3)\<rparr>"

text \<open>A market with the two cells \<open>keyA\<close> and \<open>keyB\<close>, both at 0, and a sink attached.\<close>

definition twoCellMarket :: "nat ScenarioSimMarket" where
  "twoCellMarket =
     \<lparr>simData_m = fmupd keyB 0 (fmupd keyA 0 fmempty), numeraire_m = 1,
      scenarioGenerator_m = 0,
      parameters_m = emptyParameters\<lparr>additionalScenarioDataIndices := [''EUR-EURIBOR-6M''],
                                      additionalScenarioDataCcys := [''EUR'', ''USD'']\<rparr>,
      asd_m = True, evaluationDate = 0\<rparr>"

text \<open>
  An application at the XVA stage with a portfolio of two trades and nothing left by a
  simulation stage, and what loading the files can yield.
\<close>

definition xvaApp :: OREApp where
  "xvaApp = \<lparr>xva_m = True, cube_m = None, scenarioData_m = None, portfolioSize = 2,
             writeDIMReport_m = False\<rparr>"

definition cubeOfTwo :: NPVCube where
  "cubeOfTwo = SinglePrecisionInMemoryCube 0 [''T1'', ''T2''] [1, 2, 3] 10"

definition cubeOfOne :: NPVCube where
  "cubeOfOne = SinglePrecisionInMemoryCube 0 [''T1''] [1, 2, 3] 10"

definition scenarioData3x10 :: AggregationScenarioData where
  "scenarioData3x10 = \<lparr>dimDates = 3, dimSamples = 10\<rparr>"

definition scenarioData3x20 :: AggregationScenarioData where
  "scenarioData3x20 = \<lparr>dimDates = 3, dimSamples = 20\<rparr>"

section \<open>Auxiliary lemmas\<close>

subsection \<open>The loop over the scenario's keys in closed form\<close>

lemma matchedKeys_fmupd:
  "fmlookup sd key \<noteq> None \<Longrightarrow> matchedKeys (fmupd key v sd) ks = matchedKeys sd ks"
  unfolding matchedKeys_def by (rule filter_cong) auto

lemma applyKeys_eq:
  "applyKeys sc ks (sd, c, mp, evs) =
     (fold (\<lambda>k. fmupd k (get sc k)) (matchedKeys sd ks) sd,
      c + length (matchedKeys sd ks),
      mp \<or> (\<exists>k \<in> set ks. fmlookup sd k = None),
      evs @ map (\<lambda>k. SetValue k (get sc k)) (matchedKeys sd ks))"
proof (induction ks arbitrary: sd c mp evs)
  case Nil
  show ?case by (simp add: matchedKeys_def)
next
  case (Cons key ks)
  show ?case
  proof (cases "fmlookup sd key = None")
    case True
    then show ?thesis using Cons.IH [of sd c True evs]
      by (simp add: matchedKeys_def)
  next
    case False
    then obtain y where y: "fmlookup sd key = Some y" by auto
    have m: "matchedKeys (fmupd key (get sc key) sd) ks = matchedKeys sd ks"
      using False by (rule matchedKeys_fmupd)
    have l: "\<And>k. (fmlookup (fmupd key (get sc key) sd) k = None) = (fmlookup sd k = None)"
      using False by auto
    have c: "matchedKeys sd (key # ks) = key # matchedKeys sd ks"
      using False by (simp add: matchedKeys_def)
    have "applyKeys sc (key # ks) (sd, c, mp, evs) =
            applyKeys sc ks (fmupd key (get sc key) sd, c + 1, mp, evs @ [SetValue key (get sc key)])"
      by (simp add: y)
    also have "\<dots> = (fold (\<lambda>k. fmupd k (get sc k)) (matchedKeys sd ks) (fmupd key (get sc key) sd),
      c + 1 + length (matchedKeys sd ks),
      mp \<or> (\<exists>k \<in> set ks. fmlookup sd k = None),
      (evs @ [SetValue key (get sc key)]) @ map (\<lambda>k. SetValue k (get sc k)) (matchedKeys sd ks))"
      unfolding Cons.IH m l ..
    finally show ?thesis by (simp add: c y)
  qed
qed

lemma fmdom'_fold_fmupd:
  "fmdom' (fold (\<lambda>k. fmupd k (f k)) ks sd) = fmdom' sd \<union> set ks"
  by (induction ks arbitrary: sd) auto

lemma fmlookup_fold_fmupd:
  "fmlookup (fold (\<lambda>k. fmupd k (f k)) ks sd) k =
     (if k \<in> set ks then Some (f k) else fmlookup sd k)"
  by (induction ks arbitrary: sd) auto

lemma set_matchedKeys: "set (matchedKeys sd ks) = set ks \<inter> fmdom' sd"
  by (auto simp: matchedKeys_def fmlookup_dom'_iff)

lemma matchedKeys_all:
  "\<forall>k \<in> set ks. fmlookup sd k \<noteq> None \<Longrightarrow> matchedKeys sd ks = ks"
  by (simp add: matchedKeys_def)

lemma fmdom_applied:
  "fmdom (fold (\<lambda>k. fmupd k (f k)) (matchedKeys sd ks) sd) = fmdom sd"
proof -
  have "fmdom' (fold (\<lambda>k. fmupd k (f k)) (matchedKeys sd ks) sd) = fmdom' sd"
    by (auto simp: fmdom'_fold_fmupd set_matchedKeys)
  then show ?thesis by (simp add: fmdom'_alt_def fset_inject)
qed

text \<open>\<open>update\<close> without the loop: what it returns in each of its three outcomes.\<close>

lemma update_eq:
  "update C d m =
    (let scenario = pulledScenario C d m;
         ks = matchedKeys (simData_m m) (keys scenario);
         sd = fold (\<lambda>k. fmupd k (get scenario k)) ks (simData_m m);
         m1 = m\<lparr>simData_m := sd, numeraire_m := getNumeraire scenario,
                 scenarioGenerator_m := snd (next C (scenarioGenerator_m m) d),
                 evaluationDate := d\<rparr>;
         evs3 = suspendEvents (mode C) @ [GeneratorNext d]
                @ dateEvents (mode C) d (evaluationDate m)
                @ map (\<lambda>k. SetValue k (get scenario k)) ks
     in if \<exists>k \<in> set (keys scenario). fmlookup (simData_m m) k = None
        then (Some MissingScenarioDataError, m1, evs3)
        else if length ks \<noteq> fcard (fmdom (simData_m m))
        then (Some ScenarioSizeMismatchError, m1, evs3)
        else (None, m1, evs3 @ resumeEvents (mode C) @ [FixingManagerUpdate d]
                @ (if asd_m m then asdEvents C (parameters_m m) sd (getNumeraire scenario) d
                   else [])))"
  by (simp add: update_def pulledScenario_def Let_def applyKeys_eq fmdom_applied split: prod.splits)

lemma updateError_eq:
  "updateError C d m =
     (if \<exists>k \<in> set (keys (pulledScenario C d m)). fmlookup (simData_m m) k = None
      then Some MissingScenarioDataError
      else if length (matchedKeys (simData_m m) (keys (pulledScenario C d m)))
              \<noteq> fcard (fmdom (simData_m m))
      then Some ScenarioSizeMismatchError
      else None)"
  by (simp add: updateError_def update_eq Let_def)

lemma simData_updateMarket:
  "simData_m (updateMarket C d m) =
     fold (\<lambda>k. fmupd k (get (pulledScenario C d m) k))
          (matchedKeys (simData_m m) (keys (pulledScenario C d m))) (simData_m m)"
  by (simp add: updateMarket_def update_eq Let_def)

lemma updateEvents_eq:
  "updateEvents C d m =
     suspendEvents (mode C) @ [GeneratorNext d] @ dateEvents (mode C) d (evaluationDate m)
     @ map (\<lambda>k. SetValue k (get (pulledScenario C d m) k))
           (matchedKeys (simData_m m) (keys (pulledScenario C d m)))
     @ (if updateError C d m = None
        then resumeEvents (mode C) @ [FixingManagerUpdate d]
             @ (if asd_m m
                then asdEvents C (parameters_m m) (simData_m (updateMarket C d m))
                       (getNumeraire (pulledScenario C d m)) d
                else [])
        else [])"
  by (simp add: updateEvents_def updateError_def updateMarket_def update_eq Let_def)

subsection \<open>Counting the writes to a cell\<close>

lemma writesTo_append: "writesTo k (xs @ ys) = writesTo k xs + writesTo k ys"
  by (simp add: writesTo_def)

lemma writesTo_suspendEvents: "writesTo k (suspendEvents om) = 0"
  by (simp add: writesTo_def suspendEvents_def)

lemma writesTo_dateEvents: "writesTo k (dateEvents om d today) = 0"
  by (simp add: writesTo_def dateEvents_def)

lemma writesTo_resumeEvents: "writesTo k (resumeEvents om) = 0"
  by (simp add: writesTo_def resumeEvents_def)

lemma writesTo_asdEvents: "writesTo k (asdEvents C p sd num d) = 0"
  by (simp add: writesTo_def asdEvents_def filter_map o_def)

lemma writesTo_writes:
  "writesTo k (map (\<lambda>x. SetValue x (f x)) ks) = length (filter (\<lambda>x. x = k) ks)"
  by (simp add: writesTo_def filter_map o_def)

lemma writesTo_Nil: "writesTo k [] = 0"
  by (simp add: writesTo_def)

lemma writesTo_Cons: "writesTo k (e # es) = (if writesCell k e then 1 else 0) + writesTo k es"
  by (simp add: writesTo_def)

lemma writesTo_updateEvents:
  "writesTo k (updateEvents C d m) =
     length (filter (\<lambda>x. x = k) (matchedKeys (simData_m m) (keys (pulledScenario C d m))))"
  by (simp add: updateEvents_eq writesTo_append writesTo_suspendEvents writesTo_dateEvents
        writesTo_resumeEvents writesTo_asdEvents writesTo_writes writesTo_Nil writesTo_Cons)

lemma distinct_occurs_once:
  "distinct ks \<Longrightarrow> k \<in> set ks \<Longrightarrow> length (filter (\<lambda>x. x = k) ks) = 1"
proof -
  assume d: "distinct ks" and k: "k \<in> set ks"
  have "{x. x = k} \<inter> set ks = {k}" using k by auto
  then show ?thesis using d by (simp add: distinct_length_filter)
qed

text \<open>
  When both checks pass on a sequence of distinct keys, the sequence covers the bank.
\<close>

lemma checks_cover_bank:
  assumes "distinct ks" and "\<forall>k \<in> set ks. fmlookup sd k \<noteq> None"
    and "length ks = fcard (fmdom sd)"
  shows "set ks = fmdom' sd"
proof -
  have sub: "set ks \<subseteq> fmdom' sd"
    using assms(2) by (auto simp: fmlookup_dom'_iff)
  have "card (set ks) = card (fmdom' sd)"
    using assms(1,3) by (simp add: distinct_card fcard.rep_eq fmdom'_alt_def)
  with sub show ?thesis by (simp add: card_subset_eq)
qed

subsection \<open>Writes under suspended notifications\<close>

lemma writesSuspended_no_writes:
  "\<forall>e \<in> set evs. \<forall>k v. e \<noteq> SetValue k v \<Longrightarrow> writesSuspended en evs"
  by (induction en evs rule: writesSuspended.induct) auto

lemma writesSuspended_writes:
  "writesSuspended False (map (\<lambda>k. SetValue k (f k)) ks @ rest) = writesSuspended False rest"
  by (induction ks) auto

lemma no_writes_resumeEvents: "\<forall>e \<in> set (resumeEvents om). \<forall>k v. e \<noteq> SetValue k v"
  by (simp add: resumeEvents_def)

lemma no_writes_asdEvents: "\<forall>e \<in> set (asdEvents C p sd num d). \<forall>k v. e \<noteq> SetValue k v"
  by (auto simp: asdEvents_def)

subsection \<open>The blocks of the constructor\<close>

lemma forEach_Nil: "forEach body [] s = Inr s"
  by simp

lemma forEach_fails:
  "x \<in> set xs \<Longrightarrow> (\<forall>s. \<exists>e. body x s = Inl e) \<Longrightarrow> \<exists>e. forEach body xs s = Inl e"
proof (induction xs arbitrary: s)
  case Nil
  then show ?case by simp
next
  case (Cons y ys)
  show ?case
  proof (cases "body y s")
    case (Inl e)
    then show ?thesis by simp
  next
    case (Inr s')
    with Cons.prems have "x \<noteq> y" by (metis Inl_Inr_False)
    with Cons.prems have "x \<in> set ys" by simp
    from Cons.IH [OF this Cons.prems(2)] Inr show ?thesis by simp
  qed
qed

lemma parseDecayMode_fails:
  "s \<noteq> ''ForwardVariance'' \<Longrightarrow> s \<noteq> ''ConstantVariance''
   \<Longrightarrow> parseDecayMode s = Inl (DecayModeNotRecognized s)"
  by (simp add: parseDecayMode_def decayModeMap_def)

lemma parsesDecayMode_block_fails:
  assumes "parsesDecayMode p s" and "s \<noteq> ''ForwardVariance''" and "s \<noteq> ''ConstantVariance''"
  shows "\<exists>block \<in> set (constructorBlocks im p). \<forall>sd. \<exists>e. block sd = Inl e"
proof -
  note bad = parseDecayMode_fails [OF assms(2,3)]
  consider
      (swap) "swapVolCcys p \<noteq> []" "\<not> simulateSwapVols p" "swapVolDecayMode p = s"
    | (cap) "capFloorVolCcys p \<noteq> []" "\<not> simulateCapFloorVols p" "capFloorVolDecayMode p = s"
    | (fx) "fxVolCcyPairs p \<noteq> []" "\<not> simulateFXVols p" "fxVolDecayMode p = s"
    | (eq) "eqVolNames p \<noteq> []" "\<not> simulateEQVols p" "eqVolDecayMode p = s"
    using assms(1) unfolding parsesDecayMode_def by blast
  then show ?thesis
  proof cases
    case swap
    then obtain c where c: "c \<in> set (swapVolCcys p)" by (cases "swapVolCcys p") auto
    have "\<forall>sd. \<exists>e. buildSwaptionVols im p sd = Inl e"
      unfolding buildSwaptionVols_def
      by (intro allI forEach_fails [OF c]) (simp add: swap bad)
    then show ?thesis by (auto simp: constructorBlocks_def)
  next
    case cap
    then obtain c where c: "c \<in> set (capFloorVolCcys p)" by (cases "capFloorVolCcys p") auto
    have "\<forall>sd. \<exists>e. buildCapFloorVols im p sd = Inl e"
      unfolding buildCapFloorVols_def
      by (intro allI forEach_fails [OF c]) (simp add: cap bad)
    then show ?thesis by (auto simp: constructorBlocks_def)
  next
    case fx
    then obtain c where c: "c \<in> set (fxVolCcyPairs p)" by (cases "fxVolCcyPairs p") auto
    have "\<forall>sd. \<exists>e. buildFxVols im p sd = Inl e"
      unfolding buildFxVols_def
      by (intro allI forEach_fails [OF c]) (simp add: fx bad)
    then show ?thesis by (auto simp: constructorBlocks_def)
  next
    case eq
    then obtain c where c: "c \<in> set (eqVolNames p)" by (cases "eqVolNames p") auto
    have "\<forall>sd. \<exists>e. buildEquityVols im p sd = Inl e"
      unfolding buildEquityVols_def
      by (intro allI forEach_fails [OF c]) (simp add: eq bad)
    then show ?thesis by (auto simp: constructorBlocks_def)
  qed
qed



subsection \<open>Unfolding the example inputs\<close>

lemmas example_defs =
  updateError_def updateEvents_def updateMarket_def update_def countingCollaborators_def
  countingScenario_def twoCellMarket_def pulledScenario_def matchedKeys_def
  keyA_def keyB_def keyC_def suspendEvents_def dateEvents_def resumeEvents_def asdEvents_def
  fcard_finsert_if emptyParameters_def writesTo_def

section \<open>The claims\<close>

text \<open>
  Claim C1. In every call of \<open>update\<close>: if the scenario pulled from the generator has
  a key without a cell in the bank, the call fails with the error of the missing data
  points; if the number of keys matched to cells differs from the number of cells, the
  call fails, with the error of the size mismatch when no key is without a cell; and a
  call that does not fail has neither.
\<close>

theorem update_scenario_checks:
  "((\<exists>k \<in> set (keys (pulledScenario C d m)). fmlookup (simData_m m) k = None)
      \<longrightarrow> updateError C d m = Some MissingScenarioDataError)
   \<and> (length (matchedKeys (simData_m m) (keys (pulledScenario C d m)))
         \<noteq> fcard (fmdom (simData_m m))
      \<longrightarrow> updateError C d m \<noteq> None
          \<and> ((\<forall>k \<in> set (keys (pulledScenario C d m)). fmlookup (simData_m m) k \<noteq> None)
               \<longrightarrow> updateError C d m = Some ScenarioSizeMismatchError))
   \<and> (updateError C d m = None
      \<longrightarrow> (\<forall>k \<in> set (keys (pulledScenario C d m)). fmlookup (simData_m m) k \<noteq> None)
          \<and> length (matchedKeys (simData_m m) (keys (pulledScenario C d m)))
              = fcard (fmdom (simData_m m)))"
  by (simp add: updateError_eq)

theorem update_scenario_checks_witness:
  "(\<exists>k \<in> set (keys (pulledScenario (countingCollaborators Disable [keyA, keyC]) 1 twoCellMarket)).
       fmlookup (simData_m twoCellMarket) k = None)
   \<and> updateError (countingCollaborators Disable [keyA, keyC]) 1 twoCellMarket
       = Some MissingScenarioDataError
   \<and> length (matchedKeys (simData_m twoCellMarket)
         (keys (pulledScenario (countingCollaborators Disable [keyA]) 1 twoCellMarket)))
       \<noteq> fcard (fmdom (simData_m twoCellMarket))
   \<and> keys (pulledScenario (countingCollaborators Disable [keyA]) 1 twoCellMarket) = [keyA]
   \<and> fmlookup (simData_m twoCellMarket) keyA \<noteq> None
   \<and> updateError (countingCollaborators Disable [keyA]) 1 twoCellMarket
       = Some ScenarioSizeMismatchError
   \<and> updateError (countingCollaborators Disable [keyA, keyB]) 1 twoCellMarket = None
   \<and> length (matchedKeys (simData_m twoCellMarket)
         (keys (pulledScenario (countingCollaborators Disable [keyA, keyB]) 1 twoCellMarket)))
       = fcard (fmdom (simData_m twoCellMarket))"
proof -
  have missing: "\<exists>k \<in> set (keys (pulledScenario (countingCollaborators Disable [keyA, keyC]) 1 twoCellMarket)).
       fmlookup (simData_m twoCellMarket) k = None"
    by (simp add: example_defs)
  have size: "length (matchedKeys (simData_m twoCellMarket)
         (keys (pulledScenario (countingCollaborators Disable [keyA]) 1 twoCellMarket)))
       \<noteq> fcard (fmdom (simData_m twoCellMarket))"
    by (simp add: example_defs)
  have ks: "keys (pulledScenario (countingCollaborators Disable [keyA]) 1 twoCellMarket) = [keyA]"
    by (simp add: example_defs)
  have cell: "fmlookup (simData_m twoCellMarket) keyA \<noteq> None"
    by (simp add: example_defs)
  have cells: "\<forall>k \<in> set (keys (pulledScenario (countingCollaborators Disable [keyA]) 1 twoCellMarket)).
         fmlookup (simData_m twoCellMarket) k \<noteq> None"
    unfolding ks using cell by simp
  have ok: "updateError (countingCollaborators Disable [keyA, keyB]) 1 twoCellMarket = None"
    by (simp add: example_defs)
  show ?thesis
    using missing size ks cell cells ok
      update_scenario_checks [of "countingCollaborators Disable [keyA, keyC]" 1 twoCellMarket]
      update_scenario_checks [of "countingCollaborators Disable [keyA]" 1 twoCellMarket]
      update_scenario_checks [of "countingCollaborators Disable [keyA, keyB]" 1 twoCellMarket]
    by blast
qed

text \<open>
  Claim C2, amended. When the keys of the scenario are pairwise distinct and \<open>update\<close>
  does not fail, every cell of the bank is written exactly once in the call and holds the
  scenario's value for its key afterwards.
\<close>

theorem update_distinct_keys_writes_every_cell_once:
  assumes "distinct (keys (pulledScenario C d m))"
    and "updateError C d m = None"
    and "k |\<in>| fmdom (simData_m m)"
  shows "writesTo k (updateEvents C d m) = 1
         \<and> fmlookup (simData_m (updateMarket C d m)) k = Some (get (pulledScenario C d m) k)"
proof -
  let ?ks = "keys (pulledScenario C d m)"
  from assms(2) have all: "\<forall>k \<in> set ?ks. fmlookup (simData_m m) k \<noteq> None"
    and len: "length (matchedKeys (simData_m m) ?ks) = fcard (fmdom (simData_m m))"
    by (simp_all add: updateError_eq split: if_splits)
  have mk: "matchedKeys (simData_m m) ?ks = ?ks"
    using all by (rule matchedKeys_all)
  have "set ?ks = fmdom' (simData_m m)"
    using assms(1) all len unfolding mk by (rule checks_cover_bank)
  with assms(3) have k: "k \<in> set ?ks"
    by (simp add: fmdom'_alt_def)
  have "writesTo k (updateEvents C d m) = 1"
    using distinct_occurs_once [OF assms(1) k] by (simp add: writesTo_updateEvents mk)
  moreover have "fmlookup (simData_m (updateMarket C d m)) k = Some (get (pulledScenario C d m) k)"
    using k by (simp add: simData_updateMarket mk fmlookup_fold_fmupd)
  ultimately show ?thesis by simp
qed

theorem update_distinct_keys_witness:
  "distinct (keys (pulledScenario (countingCollaborators Defer [keyA, keyB]) 1 twoCellMarket))
   \<and> updateError (countingCollaborators Defer [keyA, keyB]) 1 twoCellMarket = None
   \<and> keyB |\<in>| fmdom (simData_m twoCellMarket)
   \<and> writesTo keyB (updateEvents (countingCollaborators Defer [keyA, keyB]) 1 twoCellMarket) = 1
   \<and> fmlookup (simData_m (updateMarket (countingCollaborators Defer [keyA, keyB]) 1 twoCellMarket)) keyB
       = Some 1"
proof -
  have d: "distinct (keys (pulledScenario (countingCollaborators Defer [keyA, keyB]) 1 twoCellMarket))"
    by (simp add: example_defs)
  have ok: "updateError (countingCollaborators Defer [keyA, keyB]) 1 twoCellMarket = None"
    by (simp add: example_defs)
  have k: "keyB |\<in>| fmdom (simData_m twoCellMarket)"
    by (simp add: example_defs)
  have v: "get (pulledScenario (countingCollaborators Defer [keyA, keyB]) 1 twoCellMarket) keyB = 1"
    by (simp add: example_defs)
  show ?thesis
    using update_distinct_keys_writes_every_cell_once [OF d ok k] d ok k v by simp
qed

text \<open>
  Claim C2 as stated fails: for the scenario with the key sequence \<open>keyA, keyA\<close> on
  the bank with the cells \<open>keyA\<close> and \<open>keyB\<close>, \<open>update\<close> does not fail (two keys are
  matched and the bank has two cells), the cell \<open>keyA\<close> is written twice and the cell
  \<open>keyB\<close> is not written and keeps its value.
\<close>

theorem update_duplicate_keys_counterexample:
  "updateError (countingCollaborators Disable [keyA, keyA]) 1 twoCellMarket = None
   \<and> keyB |\<in>| fmdom (simData_m twoCellMarket)
   \<and> writesTo keyB (updateEvents (countingCollaborators Disable [keyA, keyA]) 1 twoCellMarket) = 0
   \<and> writesTo keyA (updateEvents (countingCollaborators Disable [keyA, keyA]) 1 twoCellMarket) = 2
   \<and> fmlookup (simData_m (updateMarket (countingCollaborators Disable [keyA, keyA]) 1 twoCellMarket)) keyB
       = fmlookup (simData_m twoCellMarket) keyB"
  by (simp add: example_defs)

text \<open>
  Claim C4. When the generator, reset after a first \<open>update\<close> for a date, returns for that
  date the scenario it returned in the first call, the second \<open>update\<close> for the date
  leaves every cell of the bank with the value the first one left.
\<close>

theorem update_reset_update_same_cells:
  assumes "pulledScenario C d (resetGenerator C (updateMarket C d m)) = pulledScenario C d m"
  shows "simData_m (updateMarket C d (resetGenerator C (updateMarket C d m)))
         = simData_m (updateMarket C d m)"
proof -
  let ?sc = "pulledScenario C d m"
  let ?sd = "simData_m m"
  let ?sd1 = "simData_m (updateMarket C d m)"
  have r: "simData_m (resetGenerator C (updateMarket C d m)) = ?sd1"
    by (simp add: resetGenerator_def)
  have dom: "\<And>k. (fmlookup ?sd1 k \<noteq> None) = (fmlookup ?sd k \<noteq> None)"
    by (auto simp: simData_updateMarket fmlookup_fold_fmupd set_matchedKeys fmlookup_dom'_iff)
  have mk: "matchedKeys ?sd1 (keys ?sc) = matchedKeys ?sd (keys ?sc)"
    unfolding matchedKeys_def using dom by (intro filter_cong refl) blast
  have "simData_m (updateMarket C d (resetGenerator C (updateMarket C d m)))
          = fold (\<lambda>k. fmupd k (get ?sc k)) (matchedKeys ?sd (keys ?sc)) ?sd1"
    by (simp add: simData_updateMarket [of C d "resetGenerator C (updateMarket C d m)"] assms r mk)
  also have "\<dots> = ?sd1"
    by (rule fmap_ext) (simp add: fmlookup_fold_fmupd simData_updateMarket [of C d m])
  finally show ?thesis .
qed

theorem update_reset_update_witness:
  "pulledScenario (countingCollaborators Disable [keyA, keyB]) 5
      (resetGenerator (countingCollaborators Disable [keyA, keyB])
         (updateMarket (countingCollaborators Disable [keyA, keyB]) 5 twoCellMarket))
     = pulledScenario (countingCollaborators Disable [keyA, keyB]) 5 twoCellMarket
   \<and> simData_m (updateMarket (countingCollaborators Disable [keyA, keyB]) 5
        (resetGenerator (countingCollaborators Disable [keyA, keyB])
           (updateMarket (countingCollaborators Disable [keyA, keyB]) 5 twoCellMarket)))
     = fmupd keyB 5 (fmupd keyA 5 fmempty)"
proof -
  have h: "pulledScenario (countingCollaborators Disable [keyA, keyB]) 5
      (resetGenerator (countingCollaborators Disable [keyA, keyB])
         (updateMarket (countingCollaborators Disable [keyA, keyB]) 5 twoCellMarket))
     = pulledScenario (countingCollaborators Disable [keyA, keyB]) 5 twoCellMarket"
    by (simp add: pulledScenario_def resetGenerator_def countingCollaborators_def twoCellMarket_def)
  have v: "simData_m (updateMarket (countingCollaborators Disable [keyA, keyB]) 5 twoCellMarket)
     = fmupd keyB 5 (fmupd keyA 5 fmempty)"
    by (rule fmap_ext) (simp add: example_defs)
  show ?thesis
    using update_reset_update_same_cells [OF h] h v by simp
qed


text \<open>
  Claim C3. At the XVA stage the post-processor runs only if the number of ids of the
  cube equals the size of the portfolio, the date dimension of the scenario data equals
  the number of dates of the cube and the sample dimension of the scenario data equals
  the samples of the cube; if one of the three fails, the stage fails, the run returns 1
  and the post-processor has not run; if all three hold, it runs.
\<close>

theorem xvaStage_cross_checks:
  assumes "xva_m app"
  shows "(RunPostProcessor \<in> set (snd (xvaStage app cubeFile scenarioFile))
            \<longrightarrow> numIds (cubeInUse app cubeFile) = portfolioSize app
               \<and> dimDates (scenarioDataInUse app scenarioFile) = length (dates (cubeInUse app cubeFile))
               \<and> dimSamples (scenarioDataInUse app scenarioFile) = samples (cubeInUse app cubeFile))
         \<and> (\<not> (numIds (cubeInUse app cubeFile) = portfolioSize app
               \<and> dimDates (scenarioDataInUse app scenarioFile) = length (dates (cubeInUse app cubeFile))
               \<and> dimSamples (scenarioDataInUse app scenarioFile) = samples (cubeInUse app cubeFile))
            \<longrightarrow> fst (xvaStage app cubeFile scenarioFile) \<noteq> None
               \<and> exitCode (fst (xvaStage app cubeFile scenarioFile)) = 1
               \<and> RunPostProcessor \<notin> set (snd (xvaStage app cubeFile scenarioFile)))
         \<and> (numIds (cubeInUse app cubeFile) = portfolioSize app
               \<and> dimDates (scenarioDataInUse app scenarioFile) = length (dates (cubeInUse app cubeFile))
               \<and> dimSamples (scenarioDataInUse app scenarioFile) = samples (cubeInUse app cubeFile)
            \<longrightarrow> fst (xvaStage app cubeFile scenarioFile) = None
               \<and> RunPostProcessor \<in> set (snd (xvaStage app cubeFile scenarioFile)))"
  using assms by (auto simp: xvaStage_def Let_def exitCode_def)

theorem xvaStage_cross_checks_witness:
  "xva_m xvaApp
   \<and> xvaStage xvaApp cubeOfTwo scenarioData3x10
       = (None, [LoadCube, LoadScenarioData, RunPostProcessor, WriteXVAReports])
   \<and> xvaStage xvaApp cubeOfOne scenarioData3x10 = (Some (CubeIdsMismatch 1 2), [LoadCube])
   \<and> exitCode (fst (xvaStage xvaApp cubeOfOne scenarioData3x10)) = 1
   \<and> xvaStage xvaApp cubeOfTwo scenarioData3x20
       = (Some ScenarioSamplesMismatch, [LoadCube, LoadScenarioData])"
proof -
  have x: "xva_m xvaApp" by (simp add: xvaApp_def)
  show ?thesis
    using xvaStage_cross_checks [OF x, of cubeOfTwo scenarioData3x10]
          xvaStage_cross_checks [OF x, of cubeOfOne scenarioData3x10]
          xvaStage_cross_checks [OF x, of cubeOfTwo scenarioData3x20]
    by (simp add: xvaStage_def xvaApp_def cubeOfTwo_def cubeOfOne_def scenarioData3x10_def
          scenarioData3x20_def cubeInUse_def scenarioDataInUse_def exitCode_def)
qed




text \<open>
  Claim C6. When a sink is attached and \<open>update\<close> does not fail, the events of the call
  end with the calls to the sink: one index fixing per configured additional index, one
  FX spot per configured additional currency other than the base currency, the numeraire
  of the scenario, and then the advance to the next slot. Nothing before them is a call
  to the sink, and every write to a quote cell comes before them.
\<close>

theorem update_records_aggregation_data:
  assumes "asd_m m" and "updateError C d m = None"
  shows "\<exists>pre. updateEvents C d m =
           pre
           @ map (\<lambda>i. AsdSet (indexFixing C (simData_m (updateMarket C d m)) i d) ASD_IndexFixing i)
                 (additionalScenarioDataIndices (parameters_m m))
           @ map (\<lambda>c. AsdSet (fxSpotValue C (simData_m (updateMarket C d m))
                                 (c @ baseCcy (parameters_m m))) ASD_FXSpot c)
                 (filter (\<lambda>c. c \<noteq> baseCcy (parameters_m m))
                    (additionalScenarioDataCcys (parameters_m m)))
           @ [AsdSet (getNumeraire (pulledScenario C d m)) ASD_Numeraire '''', AsdNext]
         \<and> (\<forall>e \<in> set pre. \<not> isAsdEvent e)
         \<and> (\<forall>k. writesTo k pre = writesTo k (updateEvents C d m))"
proof -
  let ?pre = "suspendEvents (mode C) @ [GeneratorNext d]
     @ dateEvents (mode C) d (evaluationDate m)
     @ map (\<lambda>k. SetValue k (get (pulledScenario C d m) k))
           (matchedKeys (simData_m m) (keys (pulledScenario C d m)))
     @ resumeEvents (mode C) @ [FixingManagerUpdate d]"
  have shape: "updateEvents C d m = ?pre @ asdEvents C (parameters_m m) (simData_m (updateMarket C d m))
                       (getNumeraire (pulledScenario C d m)) d"
    using assms by (simp add: updateEvents_eq)
  have noasd: "\<forall>e \<in> set ?pre. \<not> isAsdEvent e"
    by (auto simp: suspendEvents_def dateEvents_def resumeEvents_def)
  have writes: "\<forall>k. writesTo k ?pre = writesTo k (updateEvents C d m)"
    unfolding shape by (simp add: writesTo_append writesTo_asdEvents writesTo_Cons writesTo_Nil)
  show ?thesis
    apply (rule exI [of _ ?pre])
    using shape noasd writes unfolding asdEvents_def by simp
qed

theorem update_records_aggregation_data_witness:
  "asd_m twoCellMarket
   \<and> updateError (countingCollaborators OtherMode [keyA, keyB]) 1 twoCellMarket = None
   \<and> updateEvents (countingCollaborators OtherMode [keyA, keyB]) 1 twoCellMarket =
       [GeneratorNext 1, SetEvaluationDate 1, SetValue keyA 1, SetValue keyB 1,
        FixingManagerUpdate 1]
       @ [AsdSet 2 ASD_IndexFixing ''EUR-EURIBOR-6M'', AsdSet 3 ASD_FXSpot ''USD'',
          AsdSet 1 ASD_Numeraire '''', AsdNext]"
proof -
  have a: "asd_m twoCellMarket" by (simp add: twoCellMarket_def)
  have ok: "updateError (countingCollaborators OtherMode [keyA, keyB]) 1 twoCellMarket = None"
    by (simp add: example_defs)
  have evs: "updateEvents (countingCollaborators OtherMode [keyA, keyB]) 1 twoCellMarket =
       [GeneratorNext 1, SetEvaluationDate 1, SetValue keyA 1, SetValue keyB 1,
        FixingManagerUpdate 1]
       @ [AsdSet 2 ASD_IndexFixing ''EUR-EURIBOR-6M'', AsdSet 3 ASD_FXSpot ''USD'',
          AsdSet 1 ASD_Numeraire '''', AsdNext]"
    by (simp add: example_defs)
  show ?thesis
    using update_records_aggregation_data [OF a ok] a ok evs by simp
qed

text \<open>
  Claim C7. Under the modes Disable and Defer every write to a quote cell happens while
  the notifications are suspended. A call that does not fail suspends the notifications
  first (deferred under Defer), pulls the scenario, moves the evaluation date if it
  differs, writes all values with nothing in between, then under Disable runs one
  refresh, then enables the notifications again, and only then updates the fixings;
  under Defer there is no refresh.
\<close>

theorem update_observation_modes:
  assumes "mode C = Disable \<or> mode C = Defer"
  shows "writesSuspended True (updateEvents C d m)
         \<and> (updateError C d m = None \<longrightarrow>
             updateEvents C d m =
               [DisableUpdates (mode C = Defer), GeneratorNext d]
               @ (if d \<noteq> evaluationDate m then [SetEvaluationDate d] else [])
               @ map (\<lambda>k. SetValue k (get (pulledScenario C d m) k)) (keys (pulledScenario C d m))
               @ (if mode C = Disable then [Refresh] else [])
               @ [EnableUpdates, FixingManagerUpdate d]
               @ (if asd_m m
                  then asdEvents C (parameters_m m) (simData_m (updateMarket C d m))
                         (getNumeraire (pulledScenario C d m)) d
                  else []))"
proof -
  let ?writes = "map (\<lambda>k. SetValue k (get (pulledScenario C d m) k))
                   (matchedKeys (simData_m m) (keys (pulledScenario C d m)))"
  let ?rest = "(if updateError C d m = None
        then resumeEvents (mode C) @ [FixingManagerUpdate d]
             @ (if asd_m m
                then asdEvents C (parameters_m m) (simData_m (updateMarket C d m))
                       (getNumeraire (pulledScenario C d m)) d
                else [])
        else [])"
  have sus: "suspendEvents (mode C) = [DisableUpdates (mode C = Defer)]"
    using assms by (auto simp: suspendEvents_def)
  have dat: "dateEvents (mode C) d (evaluationDate m)
               = (if d \<noteq> evaluationDate m then [SetEvaluationDate d] else [])"
    using assms by (auto simp: dateEvents_def)
  have res: "resumeEvents (mode C) = (if mode C = Disable then [Refresh] else []) @ [EnableUpdates]"
    using assms by (auto simp: resumeEvents_def)
  have rest: "writesSuspended False ?rest"
    by (rule writesSuspended_no_writes)
       (use no_writes_resumeEvents [of "mode C"]
            no_writes_asdEvents [of C "parameters_m m" "simData_m (updateMarket C d m)"
              "getNumeraire (pulledScenario C d m)" d] in auto)
  have "writesSuspended True (updateEvents C d m) = writesSuspended False (?writes @ ?rest)"
    unfolding updateEvents_eq sus dat by simp
  also have "\<dots> = writesSuspended False ?rest"
    by (rule writesSuspended_writes)
  finally have quiet: "writesSuspended True (updateEvents C d m)"
    using rest by simp
  have shape: "updateError C d m = None \<longrightarrow>
             updateEvents C d m =
               [DisableUpdates (mode C = Defer), GeneratorNext d]
               @ (if d \<noteq> evaluationDate m then [SetEvaluationDate d] else [])
               @ map (\<lambda>k. SetValue k (get (pulledScenario C d m) k)) (keys (pulledScenario C d m))
               @ (if mode C = Disable then [Refresh] else [])
               @ [EnableUpdates, FixingManagerUpdate d]
               @ (if asd_m m
                  then asdEvents C (parameters_m m) (simData_m (updateMarket C d m))
                         (getNumeraire (pulledScenario C d m)) d
                  else [])"
  proof
    assume ok: "updateError C d m = None"
    then have "\<forall>k \<in> set (keys (pulledScenario C d m)). fmlookup (simData_m m) k \<noteq> None"
      by (simp add: updateError_eq split: if_splits)
    then have mk: "matchedKeys (simData_m m) (keys (pulledScenario C d m)) = keys (pulledScenario C d m)"
      by (rule matchedKeys_all)
    show "updateEvents C d m =
               [DisableUpdates (mode C = Defer), GeneratorNext d]
               @ (if d \<noteq> evaluationDate m then [SetEvaluationDate d] else [])
               @ map (\<lambda>k. SetValue k (get (pulledScenario C d m) k)) (keys (pulledScenario C d m))
               @ (if mode C = Disable then [Refresh] else [])
               @ [EnableUpdates, FixingManagerUpdate d]
               @ (if asd_m m
                  then asdEvents C (parameters_m m) (simData_m (updateMarket C d m))
                         (getNumeraire (pulledScenario C d m)) d
                  else [])"
      unfolding updateEvents_eq sus dat res mk using ok by simp
  qed
  from quiet shape show ?thesis ..
qed

theorem update_observation_modes_witness:
  "updateEvents (countingCollaborators Disable [keyA, keyB]) 1 (twoCellMarket\<lparr>asd_m := False\<rparr>)
     = [DisableUpdates False, GeneratorNext 1, SetEvaluationDate 1, SetValue keyA 1,
        SetValue keyB 1, Refresh, EnableUpdates, FixingManagerUpdate 1]
   \<and> updateEvents (countingCollaborators Defer [keyA, keyB]) 0 (twoCellMarket\<lparr>asd_m := False\<rparr>)
     = [DisableUpdates True, GeneratorNext 0, SetValue keyA 0,
        SetValue keyB 0, EnableUpdates, FixingManagerUpdate 0]
   \<and> writesSuspended True
        (updateEvents (countingCollaborators Disable [keyA, keyC]) 1 twoCellMarket)"
proof -
  have m1: "mode (countingCollaborators Disable [keyA, keyB]) = Disable
            \<or> mode (countingCollaborators Disable [keyA, keyB]) = Defer"
    by (simp add: countingCollaborators_def)
  have m2: "mode (countingCollaborators Defer [keyA, keyB]) = Disable
            \<or> mode (countingCollaborators Defer [keyA, keyB]) = Defer"
    by (simp add: countingCollaborators_def)
  have m3: "mode (countingCollaborators Disable [keyA, keyC]) = Disable
            \<or> mode (countingCollaborators Disable [keyA, keyC]) = Defer"
    by (simp add: countingCollaborators_def)
  have ok1: "updateError (countingCollaborators Disable [keyA, keyB]) 1 (twoCellMarket\<lparr>asd_m := False\<rparr>) = None"
    by (simp add: example_defs)
  have ok2: "updateError (countingCollaborators Defer [keyA, keyB]) 0 (twoCellMarket\<lparr>asd_m := False\<rparr>) = None"
    by (simp add: example_defs)
  show ?thesis
    using update_observation_modes [OF m1, of 1 "twoCellMarket\<lparr>asd_m := False\<rparr>"]
          update_observation_modes [OF m2, of 0 "twoCellMarket\<lparr>asd_m := False\<rparr>"]
          update_observation_modes [OF m3, of 1 twoCellMarket] ok1 ok2
    by (simp add: pulledScenario_def countingCollaborators_def countingScenario_def
          twoCellMarket_def)
qed

text \<open>
  Claim C8. A cube depth other than 1 and 2 makes cube construction fail with the
  error on the expected depth; depth 1 builds the cube that stores the NPV only, filled
  by the NPV calculator alone; depth 2 builds the cube of depth 2, filled by the NPV
  calculator and one further calculator.
\<close>

theorem initCube_depth:
  "(d \<noteq> 1 \<and> d \<noteq> 2 \<longrightarrow> initCube d asof ids grid n = Inl UnsupportedCubeDepth)
   \<and> initCube 1 asof ids grid n = Inr (SinglePrecisionInMemoryCube asof ids grid n)
   \<and> depth (SinglePrecisionInMemoryCube asof ids grid n) = 1
   \<and> calculators 1 ccy asof = [NPVCalculator ccy]
   \<and> initCube 2 asof ids grid n = Inr (SinglePrecisionInMemoryCubeN asof ids grid n 2)
   \<and> depth (SinglePrecisionInMemoryCubeN asof ids grid n 2) = 2
   \<and> calculators 2 ccy asof = [NPVCalculator ccy, CashflowCalculator ccy asof 1]"
  by (simp add: initCube_def calculators_def)

theorem initCube_depth_witness:
  "(3::nat) \<noteq> 1 \<and> (3::nat) \<noteq> 2
   \<and> initCube 3 0 [''T1''] [1, 2] 10 = Inl UnsupportedCubeDepth
   \<and> initCube 0 0 [''T1''] [1, 2] 10 = Inl UnsupportedCubeDepth"
  using initCube_depth [of 3 0 "[''T1'']" "[1, 2]" 10]
        initCube_depth [of 0 0 "[''T1'']" "[1, 2]" 10]
  by simp

text \<open>
  Claim C9, amended. \<open>parseDecayMode\<close> returns the forward-forward-variance policy for
  exactly the string ForwardVariance and the constant-variance policy for exactly the
  string ConstantVariance, and fails for every other string. The constructor of the
  market fails with it whenever it parses such a string, which it does for a volatility
  category (swaption, cap/floor, FX, equity) that has at least one name and is not
  simulated.
\<close>

theorem parseDecayMode_exact:
  "(parseDecayMode s = Inr ForwardForwardVariance \<longleftrightarrow> s = ''ForwardVariance'')
   \<and> (parseDecayMode s = Inr ConstantVariance \<longleftrightarrow> s = ''ConstantVariance'')
   \<and> (s \<noteq> ''ForwardVariance'' \<and> s \<noteq> ''ConstantVariance''
        \<longrightarrow> parseDecayMode s = Inl (DecayModeNotRecognized s)
            \<and> (parsesDecayMode p s
                  \<longrightarrow> (\<exists>e. ScenarioSimMarket_new g initMarket p today = Inl e)))"
proof -
  have ctor: "\<exists>e. ScenarioSimMarket_new g initMarket p today = Inl e"
    if bad: "s \<noteq> ''ForwardVariance''" "s \<noteq> ''ConstantVariance''" and reads: "parsesDecayMode p s"
  proof -
    from parsesDecayMode_block_fails [OF reads bad, of initMarket]
    obtain block where b: "block \<in> set (constructorBlocks initMarket p)"
      and f: "\<forall>sd. \<exists>e. block sd = Inl e" by blast
    have "\<exists>e. forEach (\<lambda>block sd. block sd) (constructorBlocks initMarket p) fmempty = Inl e"
      using forEach_fails [OF b, of "\<lambda>block sd. block sd" fmempty] f by simp
    then show ?thesis
      by (auto simp: ScenarioSimMarket_new_def buildSimData_def)
  qed
  show ?thesis
    using ctor by (auto simp: parseDecayMode_def decayModeMap_def)
qed

theorem parseDecayMode_exact_witness:
  "''Forward'' \<noteq> ''ForwardVariance'' \<and> ''Forward'' \<noteq> ''ConstantVariance''
   \<and> parseDecayMode ''Forward'' = Inl (DecayModeNotRecognized ''Forward'')
   \<and> parsesDecayMode (emptyParameters\<lparr>fxVolCcyPairs := [''EURUSD''], fxVolDecayMode := ''Forward''\<rparr>)
        ''Forward''
   \<and> (\<exists>e. ScenarioSimMarket_new (0::nat) flatMarket
             (emptyParameters\<lparr>fxVolCcyPairs := [''EURUSD''], fxVolDecayMode := ''Forward''\<rparr>) 0 = Inl e)"
proof -
  have r: "parsesDecayMode (emptyParameters\<lparr>fxVolCcyPairs := [''EURUSD''], fxVolDecayMode := ''Forward''\<rparr>)
        ''Forward''"
    by (simp add: parsesDecayMode_def emptyParameters_def)
  show ?thesis
    using parseDecayMode_exact [of "''Forward''"
            "emptyParameters\<lparr>fxVolCcyPairs := [''EURUSD''], fxVolDecayMode := ''Forward''\<rparr>"
            "0::nat" flatMarket 0] r
    by simp
qed

text \<open>
  Claim C9 as stated fails in its last part: the string Forward is not a decay mode, yet
  the constructor succeeds with it as the FX decay mode when the FX volatilities are
  simulated (the cell of the one expiry is registered and the string is never parsed),
  and with it as the swaption decay mode when no swaption volatility currency is
  declared.
\<close>

theorem unsupported_decay_mode_counterexample:
  "''Forward'' \<noteq> ''ForwardVariance'' \<and> ''Forward'' \<noteq> ''ConstantVariance''
   \<and> parseDecayMode ''Forward'' = Inl (DecayModeNotRecognized ''Forward'')
   \<and> fxVolDecayMode (emptyParameters\<lparr>fxVolCcyPairs := [''EURUSD''], simulateFXVols := True,
          fxVolExpiries := [oneYear], fxVolDecayMode := ''Forward''\<rparr>) = ''Forward''
   \<and> ScenarioSimMarket_new (0::nat) flatMarket
         (emptyParameters\<lparr>fxVolCcyPairs := [''EURUSD''], simulateFXVols := True,
            fxVolExpiries := [oneYear], fxVolDecayMode := ''Forward''\<rparr>) 0
       = Inr \<lparr>simData_m = fmupd (RiskFactorKey FXVolatility ''EURUSD'' 0) 1 fmempty,
              numeraire_m = 1, scenarioGenerator_m = 0,
              parameters_m = emptyParameters\<lparr>fxVolCcyPairs := [''EURUSD''],
                 simulateFXVols := True, fxVolExpiries := [oneYear],
                 fxVolDecayMode := ''Forward''\<rparr>,
              asd_m = False, evaluationDate = 0\<rparr>
   \<and> swapVolDecayMode (emptyParameters\<lparr>swapVolDecayMode := ''Forward''\<rparr>) = ''Forward''
   \<and> ScenarioSimMarket_new (0::nat) flatMarket
         (emptyParameters\<lparr>swapVolDecayMode := ''Forward''\<rparr>) 0
       = Inr \<lparr>simData_m = fmempty, numeraire_m = 1, scenarioGenerator_m = 0,
              parameters_m = emptyParameters\<lparr>swapVolDecayMode := ''Forward''\<rparr>,
              asd_m = False, evaluationDate = 0\<rparr>"
  by (simp add: parseDecayMode_def decayModeMap_def ScenarioSimMarket_new_def emptyParameters_def
        buildSimData_def constructorBlocks_def buildFxSpots_def
        checkYieldCurveTenors_def requireFrontPositive_def buildDiscountCurves_def
        buildYieldCurves_def buildIndexCurves_def buildSwaptionVols_def buildCapFloorVols_def
        buildDefaultCurves_def buildFxVols_def buildEquitySpots_def checkEquityTenors_def
        buildEquityVols_def emplace_def emplacePillars_def flatMarket_def oneYear_def)

text \<open>
  Claim C10. A per-qualifier lookup returns the entry of the qualifier when the map
  has one, otherwise the entry of the empty string when the map has one, and fails
  exactly when the map has neither; every inspector of the parameter class that takes a
  qualifier and goes through one of the two helpers (tenor grids, day counters and the
  calendar) is that lookup on its own map.
\<close>

theorem returnTenors_returnDayCounter_lookup:
  "(\<forall>v. m k = Some v \<longrightarrow> returnTenors m k = Inr v)
   \<and> (\<forall>v. m k = None \<and> m '''' = Some v \<longrightarrow> returnTenors m k = Inr v)
   \<and> ((\<exists>e. returnTenors m k = Inl e) \<longleftrightarrow> (m k = None \<and> m '''' = None))
   \<and> (\<forall>v. n k = Some v \<longrightarrow> returnDayCounter n k = Inr v)
   \<and> (\<forall>v. n k = None \<and> n '''' = Some v \<longrightarrow> returnDayCounter n k = Inr v)
   \<and> ((\<exists>e. returnDayCounter n k = Inl e) \<longleftrightarrow> (n k = None \<and> n '''' = None))
   \<and> yieldCurveTenors_key p k = returnTenors (yieldCurveTenors_m p) k
   \<and> capFloorVolExpiries_key p k = returnTenors (capFloorVolExpiries_m p) k
   \<and> yoyInflationCapFloorVolExpiries_key p k = returnTenors (yoyInflationCapFloorVolExpiries_m p) k
   \<and> defaultTenors_key p k = returnTenors (defaultTenors_m p) k
   \<and> equityDividendTenors_key p k = returnTenors (equityDividendTenors_m p) k
   \<and> zeroInflationTenors_key p k = returnTenors (zeroInflationTenors_m p) k
   \<and> yoyInflationTenors_key p k = returnTenors (yoyInflationTenors_m p) k
   \<and> commodityCurveTenors_key p k = returnTenors (commodityCurveTenors_m p) k
   \<and> commodityVolExpiries_key p k = returnTenors (commodityVolExpiries_m p) k
   \<and> yieldCurveDayCounter_key p k = returnDayCounter (yieldCurveDayCounters_m p) k
   \<and> defaultCurveDayCounter_key p k = returnDayCounter (defaultCurveDayCounters_m p) k
   \<and> defaultCurveCalendar_key p k = returnDayCounter (defaultCurveCalendars_m p) k
   \<and> swapVolDayCounter_key p k = returnDayCounter (swapVolDayCounters_m p) k
   \<and> yieldVolDayCounter_key p k = returnDayCounter (yieldVolDayCounters_m p) k
   \<and> fxVolDayCounter_key p k = returnDayCounter (fxVolDayCounters_m p) k
   \<and> cdsVolDayCounter_key p k = returnDayCounter (cdsVolDayCounters_m p) k
   \<and> equityVolDayCounter_key p k = returnDayCounter (equityVolDayCounters_m p) k
   \<and> capFloorVolDayCounter_key p k = returnDayCounter (capFloorVolDayCounters_m p) k
   \<and> yoyInflationCapFloorVolDayCounter_key p k = returnDayCounter (yoyInflationCapFloorVolDayCounters_m p) k
   \<and> zeroInflationDayCounter_key p k = returnDayCounter (zeroInflationDayCounters_m p) k
   \<and> yoyInflationDayCounter_key p k = returnDayCounter (yoyInflationDayCounters_m p) k
   \<and> baseCorrelationDayCounter_key p k = returnDayCounter (baseCorrelationDayCounters_m p) k
   \<and> commodityCurveDayCounter_key p k = returnDayCounter (commodityCurveDayCounters_m p) k
   \<and> commodityVolDayCounter_key p k = returnDayCounter (commodityVolDayCounters_m p) k"
  by (auto simp: returnTenors_def returnDayCounter_def
        yieldCurveTenors_key_def
        capFloorVolExpiries_key_def
        yoyInflationCapFloorVolExpiries_key_def
        defaultTenors_key_def
        equityDividendTenors_key_def
        zeroInflationTenors_key_def
        yoyInflationTenors_key_def
        commodityCurveTenors_key_def
        commodityVolExpiries_key_def
        yieldCurveDayCounter_key_def
        defaultCurveDayCounter_key_def
        defaultCurveCalendar_key_def
        swapVolDayCounter_key_def
        yieldVolDayCounter_key_def
        fxVolDayCounter_key_def
        cdsVolDayCounter_key_def
        equityVolDayCounter_key_def
        capFloorVolDayCounter_key_def
        yoyInflationCapFloorVolDayCounter_key_def
        zeroInflationDayCounter_key_def
        yoyInflationDayCounter_key_def
        baseCorrelationDayCounter_key_def
        commodityCurveDayCounter_key_def
        commodityVolDayCounter_key_def)

theorem returnTenors_returnDayCounter_lookup_witness:
  "[''EUR'' \<mapsto> [oneYear], '''' \<mapsto> [zeroDays]] ''EUR'' = Some [oneYear]
   \<and> returnTenors [''EUR'' \<mapsto> [oneYear], '''' \<mapsto> [zeroDays]] ''EUR'' = Inr [oneYear]
   \<and> [''EUR'' \<mapsto> [oneYear], '''' \<mapsto> [zeroDays]] ''USD'' = None
   \<and> [''EUR'' \<mapsto> [oneYear], '''' \<mapsto> [zeroDays]] '''' = Some [zeroDays]
   \<and> returnTenors [''EUR'' \<mapsto> [oneYear], '''' \<mapsto> [zeroDays]] ''USD'' = Inr [zeroDays]
   \<and> (\<exists>e. returnTenors [''EUR'' \<mapsto> [oneYear]] ''USD'' = Inl e)
   \<and> returnDayCounter [''EUR'' \<mapsto> ''A360'', '''' \<mapsto> ''A365''] ''EUR'' = Inr ''A360''
   \<and> returnDayCounter [''EUR'' \<mapsto> ''A360'', '''' \<mapsto> ''A365''] ''USD'' = Inr ''A365''
   \<and> (\<exists>e. returnDayCounter [''EUR'' \<mapsto> ''A360''] ''USD'' = Inl e)
   \<and> defaultCurveCalendar_key setDefaults ''USD'' = Inr ''TARGET''
   \<and> defaultCurveDayCounter_key setDefaults ''USD'' = Inr ''A365''
   \<and> defaultTenors_key setDefaults ''USD'' = Inr []
   \<and> (\<exists>e. yieldCurveTenors_key setDefaults ''USD'' = Inl e)"
  using returnTenors_returnDayCounter_lookup
          [of "[''EUR'' \<mapsto> [oneYear], '''' \<mapsto> [zeroDays]]" "''EUR''"
              "[''EUR'' \<mapsto> ''A360'', '''' \<mapsto> ''A365'']"]
        returnTenors_returnDayCounter_lookup
          [of "[''EUR'' \<mapsto> [oneYear], '''' \<mapsto> [zeroDays]]" "''USD''"
              "[''EUR'' \<mapsto> ''A360'', '''' \<mapsto> ''A365'']"]
        returnTenors_returnDayCounter_lookup
          [of "[''EUR'' \<mapsto> [oneYear]]" "''USD''" "[''EUR'' \<mapsto> ''A360'']"]
        returnTenors_returnDayCounter_lookup
          [of "defaultTenors_m setDefaults" "''USD''"
              "defaultCurveCalendars_m setDefaults" setDefaults]
        returnTenors_returnDayCounter_lookup
          [of "yieldCurveTenors_m setDefaults" "''USD''"
              "defaultCurveDayCounters_m setDefaults" setDefaults]
  by (simp add: setDefaults_def)

end
